theory Spec2Isabelle
  imports Complex_Main "HOL-Library.Sublist"
begin

section \<open>Dynamic document translator: a model of \<open>main.py\<close>\<close>

text \<open>
  The backend is a Flask application (Python) that serves a page whose script holds the
  agent framework (JavaScript). Both are modelled here as pure functions.

  \<^item> Strings are byte lists (\<open>string\<close>); text outside ASCII stands as its UTF-8 bytes.
    UTF-8 is self-synchronising, so searching and replacing an ASCII phrase in the bytes
    agrees with Python's \<open>str.replace\<close> and JavaScript's \<open>includes\<close> on code points.
  \<^item> The OCR engine and the language model are collaborators: functions handed to the
    model, returning \<open>None\<close> where the call raises.
  \<^item> Every call to a collaborator is logged, in order, in a list the model returns.
  \<^item> Python floats are modelled as exact rationals; rounding is not modelled.
\<close>

subsection \<open>Region extraction: \<open>process_image_with_ocr\<close>\<close>

type_synonym point = "rat \<times> rat"

text \<open>
  One element of \<open>reader.readtext(...)\<close>: a sequence whose length the code tests.
  Fewer than two items: skipped. Two items: box and text. Three or more: box, text and
  confidence (only the first three are read).
\<close>

datatype ocr_res = Short | Pair "point list" string | Triple "point list" string rat

record bbox_info =
  r_bbox :: "point list"
  r_text :: string
  r_confidence :: rat

text \<open>
  \<open>easyocr.Reader(langs).readtext(image_path, detail=1, paragraph=p)\<close> for the image
  of the request: \<open>None\<close> when the reader or the recognition raises.
\<close>

type_synonym ocr_reader = "string list \<Rightarrow> bool \<Rightarrow> ocr_res list option"

type_synonym ocr_call = "string list \<times> bool"

definition language_combinations :: "string list list" where
  "language_combinations =
     [[''en''],
      [''en'', ''hi''],
      [''en'', ''te''],
      [''en'', ''hi'', ''te''],
      [''en'', ''hi'', ''te'', ''ta'', ''kn'', ''ml'', ''gu'', ''pa'', ''bn'', ''or'']]"

fun to_bbox_info :: "ocr_res \<Rightarrow> bbox_info option" where
  "to_bbox_info Short = None"
| "to_bbox_info (Pair b t) = Some \<lparr>r_bbox = b, r_text = t, r_confidence = 9 / 10\<rparr>"
| "to_bbox_info (Triple b t c) = Some \<lparr>r_bbox = b, r_text = t, r_confidence = c\<rparr>"

text \<open>The inner loop \<open>for res in results: if len(res) >= 2: bboxes.append(...)\<close>.\<close>

definition append_results :: "bbox_info list \<Rightarrow> ocr_res list \<Rightarrow> bbox_info list" where
  "append_results bboxes results = bboxes @ List.map_filter to_bbox_info results"

text \<open>
  The loop over the ladder. \<open>bboxes\<close> is the accumulator of the source, shared by all
  attempts; \<open>calls\<close> is the log of the attempts made so far.
\<close>

fun ocr_ladder ::
  "ocr_reader \<Rightarrow> string list list \<Rightarrow> bbox_info list \<Rightarrow> ocr_call list
     \<Rightarrow> bbox_info list \<times> ocr_call list" where
  "ocr_ladder reader [] bboxes calls = (bboxes, calls)"
| "ocr_ladder reader (lang_combo # rest) bboxes calls =
     (case reader lang_combo True of
        None \<Rightarrow> ocr_ladder reader rest bboxes (calls @ [(lang_combo, True)])
      | Some results \<Rightarrow>
          (let bboxes' = append_results bboxes results in
           if bboxes' \<noteq> [] then (bboxes', calls @ [(lang_combo, True)])
           else ocr_ladder reader rest bboxes' (calls @ [(lang_combo, True)])))"

definition process_image_with_ocr :: "ocr_reader \<Rightarrow> bbox_info list \<times> ocr_call list" where
  "process_image_with_ocr reader =
     (case ocr_ladder reader language_combinations [] [] of
        (bboxes, calls) \<Rightarrow>
          if bboxes = [] then
            (case reader [''en''] False of
               None \<Rightarrow> (bboxes, calls @ [([''en''], False)])
             | Some results \<Rightarrow> (append_results bboxes results, calls @ [([''en''], False)]))
          else (bboxes, calls))"

text \<open>
  The extractor as the specification words it, to compare with the code: the regions one
  attempt yields (none when it raises), the entries tried in order up to the first that
  yields a region, and the single retry without paragraph grouping when none does.
\<close>

definition attempt :: "ocr_reader \<Rightarrow> string list \<Rightarrow> bool \<Rightarrow> bbox_info list" where
  "attempt reader langs paragraph =
     (case reader langs paragraph of
        None \<Rightarrow> []
      | Some results \<Rightarrow> List.map_filter to_bbox_info results)"

definition yields_nothing :: "ocr_reader \<Rightarrow> string list \<Rightarrow> bool" where
  "yields_nothing reader langs = (attempt reader langs True = [])"

definition extractor_spec ::
  "ocr_reader \<Rightarrow> string list list \<Rightarrow> bbox_info list \<times> ocr_call list" where
  "extractor_spec reader ladder =
     (case dropWhile (yields_nothing reader) ladder of
        first_hit # later \<Rightarrow>
          (attempt reader first_hit True,
           map (\<lambda>l. (l, True)) (takeWhile (yields_nothing reader) ladder @ [first_hit]))
      | [] \<Rightarrow>
          (attempt reader (hd ladder) False,
           map (\<lambda>l. (l, True)) ladder @ [(hd ladder, False)]))"

subsection \<open>Strings\<close>

text \<open>
  \<open>str.upper\<close>, \<open>str.lower\<close> and \<open>toLowerCase\<close> on the ASCII letters; other bytes
  are left as they are. The code applies them to a language code, to the form field
  \<open>agent_mode\<close> and to a reply searched for an ASCII word.
\<close>

definition upper_char :: "char \<Rightarrow> char" where
  "upper_char c =
     (case map_of (zip ''abcdefghijklmnopqrstuvwxyz'' ''ABCDEFGHIJKLMNOPQRSTUVWXYZ'') c of
        None \<Rightarrow> c
      | Some u \<Rightarrow> u)"

definition lower_char :: "char \<Rightarrow> char" where
  "lower_char c =
     (case map_of (zip ''ABCDEFGHIJKLMNOPQRSTUVWXYZ'' ''abcdefghijklmnopqrstuvwxyz'') c of
        None \<Rightarrow> c
      | Some l \<Rightarrow> l)"

definition str_upper :: "string \<Rightarrow> string" where
  "str_upper s = map upper_char s"

definition str_lower :: "string \<Rightarrow> string" where
  "str_lower s = map lower_char s"

text \<open>
  The characters \<open>str.strip()\<close> removes (those with \<open>str.isspace\<close>), and the ones
  \<open>String.prototype.trim\<close> removes (white space and line terminators), in UTF-8.
\<close>

definition py_whitespace :: "string list" where
  "py_whitespace =
     [[CHR 0x09], [CHR 0x0A], [CHR 0x0B], [CHR 0x0C], [CHR 0x0D],
      [CHR 0x1C], [CHR 0x1D], [CHR 0x1E], [CHR 0x1F], [CHR 0x20],
      [CHR 0xC2, CHR 0x85], [CHR 0xC2, CHR 0xA0], [CHR 0xE1, CHR 0x9A, CHR 0x80],
      [CHR 0xE2, CHR 0x80, CHR 0x80], [CHR 0xE2, CHR 0x80, CHR 0x81],
      [CHR 0xE2, CHR 0x80, CHR 0x82], [CHR 0xE2, CHR 0x80, CHR 0x83],
      [CHR 0xE2, CHR 0x80, CHR 0x84], [CHR 0xE2, CHR 0x80, CHR 0x85],
      [CHR 0xE2, CHR 0x80, CHR 0x86], [CHR 0xE2, CHR 0x80, CHR 0x87],
      [CHR 0xE2, CHR 0x80, CHR 0x88], [CHR 0xE2, CHR 0x80, CHR 0x89],
      [CHR 0xE2, CHR 0x80, CHR 0x8A], [CHR 0xE2, CHR 0x80, CHR 0xA8],
      [CHR 0xE2, CHR 0x80, CHR 0xA9], [CHR 0xE2, CHR 0x80, CHR 0xAF],
      [CHR 0xE2, CHR 0x81, CHR 0x9F], [CHR 0xE3, CHR 0x80, CHR 0x80]]"

definition js_whitespace :: "string list" where
  "js_whitespace =
     [[CHR 0x09], [CHR 0x0A], [CHR 0x0B], [CHR 0x0C], [CHR 0x0D], [CHR 0x20],
      [CHR 0xC2, CHR 0xA0], [CHR 0xE1, CHR 0x9A, CHR 0x80],
      [CHR 0xE2, CHR 0x80, CHR 0x80], [CHR 0xE2, CHR 0x80, CHR 0x81],
      [CHR 0xE2, CHR 0x80, CHR 0x82], [CHR 0xE2, CHR 0x80, CHR 0x83],
      [CHR 0xE2, CHR 0x80, CHR 0x84], [CHR 0xE2, CHR 0x80, CHR 0x85],
      [CHR 0xE2, CHR 0x80, CHR 0x86], [CHR 0xE2, CHR 0x80, CHR 0x87],
      [CHR 0xE2, CHR 0x80, CHR 0x88], [CHR 0xE2, CHR 0x80, CHR 0x89],
      [CHR 0xE2, CHR 0x80, CHR 0x8A], [CHR 0xE2, CHR 0x80, CHR 0xA8],
      [CHR 0xE2, CHR 0x80, CHR 0xA9], [CHR 0xE2, CHR 0x80, CHR 0xAF],
      [CHR 0xE2, CHR 0x81, CHR 0x9F], [CHR 0xE3, CHR 0x80, CHR 0x80],
      [CHR 0xEF, CHR 0xBB, CHR 0xBF]]"

text \<open>Removing leading characters of a set, given by their encodings.\<close>

function lstrip_ws :: "string list \<Rightarrow> string \<Rightarrow> string" where
  "lstrip_ws ws s =
     (case find (\<lambda>w. w \<noteq> [] \<and> prefix w s) ws of
        None \<Rightarrow> s
      | Some w \<Rightarrow> lstrip_ws ws (drop (length w) s))"
  by pat_completeness auto
termination
  by (relation "measure (\<lambda>(ws, s). length s)") (auto simp: find_Some_iff prefix_def)

definition rstrip_ws :: "string list \<Rightarrow> string \<Rightarrow> string" where
  "rstrip_ws ws s = rev (lstrip_ws (map rev ws) (rev s))"

definition py_strip :: "string \<Rightarrow> string" where
  "py_strip s = rstrip_ws py_whitespace (lstrip_ws py_whitespace s)"

definition js_trim :: "string \<Rightarrow> string" where
  "js_trim s = rstrip_ws js_whitespace (lstrip_ws js_whitespace s)"

text \<open>
  \<open>s.replace(old, new)\<close>: every occurrence of \<open>old\<close>, found from the left and not
  overlapping. The callers pass the phrases of a fixed table, none of them empty; for
  an empty \<open>old\<close> Python puts \<open>new\<close> around every character.
\<close>

fun replace :: "string \<Rightarrow> string \<Rightarrow> string \<Rightarrow> string" where
  "replace old new [] = (if old = [] then new else [])"
| "replace old new (c # cs) =
     (if old = [] then new @ c # replace old new cs
      else if prefix old (c # cs) then new @ replace old new (drop (length old - 1) cs)
      else c # replace old new cs)"

text \<open>\<open>str(i)\<close> for an index: its decimal digits.\<close>

fun str_nat :: "nat \<Rightarrow> string" where
  "str_nat n =
     (if n < 10 then [''0123456789'' ! n]
      else str_nat (n div 10) @ [''0123456789'' ! (n mod 10)])"

subsection \<open>Translation: \<open>translate_text\<close>, \<open>translate_text_with_agents\<close>, \<open>fallback_translation\<close>\<close>

text \<open>
  \<open>ollama.generate(model=model, prompt=prompt)['response']\<close>: the reply, or \<open>None\<close>
  when the call raises. A logged call is the model and the prompt sent.
\<close>

type_synonym llm = "string \<Rightarrow> string \<Rightarrow> string option"

type_synonym llm_call = "string \<times> string"

record lang_info =
  li_name :: string
  li_native :: string

definition languages :: "(string \<times> lang_info) list" where
  "languages =
     [(''te'', \<lparr>li_name = ''Telugu'',
         li_native = [CHR 0xE0, CHR 0xB0, CHR 0xA4, CHR 0xE0, CHR 0xB1, CHR 0x86] @
     [CHR 0xE0, CHR 0xB0, CHR 0xB2, CHR 0xE0, CHR 0xB1, CHR 0x81] @
     [CHR 0xE0, CHR 0xB0, CHR 0x97, CHR 0xE0, CHR 0xB1, CHR 0x81]\<rparr>),
      (''hi'', \<lparr>li_name = ''Hindi'',
         li_native = [CHR 0xE0, CHR 0xA4, CHR 0xB9, CHR 0xE0, CHR 0xA4, CHR 0xBF] @
     [CHR 0xE0, CHR 0xA4, CHR 0xA8, CHR 0xE0, CHR 0xA5, CHR 0x8D] @
     [CHR 0xE0, CHR 0xA4, CHR 0xA6, CHR 0xE0, CHR 0xA5, CHR 0x80]\<rparr>),
      (''ta'', \<lparr>li_name = ''Tamil'',
         li_native = [CHR 0xE0, CHR 0xAE, CHR 0xA4, CHR 0xE0, CHR 0xAE, CHR 0xAE] @
     [CHR 0xE0, CHR 0xAE, CHR 0xBF, CHR 0xE0, CHR 0xAE, CHR 0xB4] @
     [CHR 0xE0, CHR 0xAF, CHR 0x8D]\<rparr>),
      (''kn'', \<lparr>li_name = ''Kannada'',
         li_native = [CHR 0xE0, CHR 0xB2, CHR 0x95, CHR 0xE0, CHR 0xB2, CHR 0xA8] @
     [CHR 0xE0, CHR 0xB3, CHR 0x8D, CHR 0xE0, CHR 0xB2, CHR 0xA8] @
     [CHR 0xE0, CHR 0xB2, CHR 0xA1]\<rparr>),
      (''ml'', \<lparr>li_name = ''Malayalam'',
         li_native = [CHR 0xE0, CHR 0xB4, CHR 0xAE, CHR 0xE0, CHR 0xB4, CHR 0xB2] @
     [CHR 0xE0, CHR 0xB4, CHR 0xAF, CHR 0xE0, CHR 0xB4, CHR 0xBE] @
     [CHR 0xE0, CHR 0xB4, CHR 0xB3, CHR 0xE0, CHR 0xB4, CHR 0x82]\<rparr>),
      (''en'', \<lparr>li_name = ''English'',
         li_native = ''English''\<rparr>),
      (''gu'', \<lparr>li_name = ''Gujarati'',
         li_native = [CHR 0xE0, CHR 0xAA, CHR 0x97, CHR 0xE0, CHR 0xAB, CHR 0x81] @
     [CHR 0xE0, CHR 0xAA, CHR 0x9C, CHR 0xE0, CHR 0xAA, CHR 0xB0] @
     [CHR 0xE0, CHR 0xAA, CHR 0xBE, CHR 0xE0, CHR 0xAA, CHR 0xA4] @
     [CHR 0xE0, CHR 0xAB, CHR 0x80]\<rparr>),
      (''pa'', \<lparr>li_name = ''Punjabi'',
         li_native = [CHR 0xE0, CHR 0xA8, CHR 0xAA, CHR 0xE0, CHR 0xA9, CHR 0xB0] @
     [CHR 0xE0, CHR 0xA8, CHR 0x9C, CHR 0xE0, CHR 0xA8, CHR 0xBE] @
     [CHR 0xE0, CHR 0xA8, CHR 0xAC, CHR 0xE0, CHR 0xA9, CHR 0x80]\<rparr>),
      (''bn'', \<lparr>li_name = ''Bengali'',
         li_native = [CHR 0xE0, CHR 0xA6, CHR 0xAC, CHR 0xE0, CHR 0xA6, CHR 0xBE] @
     [CHR 0xE0, CHR 0xA6, CHR 0x82, CHR 0xE0, CHR 0xA6, CHR 0xB2] @
     [CHR 0xE0, CHR 0xA6, CHR 0xBE]\<rparr>),
      (''or'', \<lparr>li_name = ''Odia'',
         li_native = [CHR 0xE0, CHR 0xAC, CHR 0x93, CHR 0xE0, CHR 0xAC, CHR 0xA1] @
     [CHR 0xE0, CHR 0xAC, CHR 0xBC, CHR 0xE0, CHR 0xAC, CHR 0xBF] @
     [CHR 0xE0, CHR 0xAC, CHR 0x86]\<rparr>)]"

definition get_language_info :: "string \<Rightarrow> lang_info" where
  "get_language_info lang_code =
     (case map_of languages lang_code of
        Some info \<Rightarrow> info
      | None \<Rightarrow> \<lparr>li_name = ''Telugu'', li_native = [CHR 0xE0, CHR 0xB0, CHR 0xA4, CHR 0xE0, CHR 0xB1, CHR 0x86] @
[CHR 0xE0, CHR 0xB0, CHR 0xB2, CHR 0xE0, CHR 0xB1, CHR 0x81] @
[CHR 0xE0, CHR 0xB0, CHR 0x97, CHR 0xE0, CHR 0xB1, CHR 0x81]\<rparr>)"

definition fallback_translations :: "(string \<times> (string \<times> string) list) list" where
  "fallback_translations =
     [(''te'',
       [(''OFFICE OF THE REGISTRAR GENERAL'',
         [CHR 0xE0, CHR 0xB0, CHR 0xB0, CHR 0xE0, CHR 0xB0, CHR 0xBF] @
         [CHR 0xE0, CHR 0xB0, CHR 0x9C, CHR 0xE0, CHR 0xB0, CHR 0xBF] @
         [CHR 0xE0, CHR 0xB0, CHR 0xB8, CHR 0xE0, CHR 0xB1, CHR 0x8D] @
         [CHR 0xE0, CHR 0xB0, CHR 0x9F, CHR 0xE0, CHR 0xB1, CHR 0x8D] @
         [CHR 0xE0, CHR 0xB0, CHR 0xB0, CHR 0xE0, CHR 0xB0, CHR 0xBE] @
         [CHR 0xE0, CHR 0xB0, CHR 0xB0, CHR 0xE0, CHR 0xB1, CHR 0x8D] @ '' '' @
         [CHR 0xE0, CHR 0xB0, CHR 0x9C, CHR 0xE0, CHR 0xB0, CHR 0xA8] @
         [CHR 0xE0, CHR 0xB0, CHR 0xB0, CHR 0xE0, CHR 0xB0, CHR 0xB2] @
         [CHR 0xE0, CHR 0xB1, CHR 0x8D] @ '' '' @
         [CHR 0xE0, CHR 0xB0, CHR 0x95, CHR 0xE0, CHR 0xB0, CHR 0xBE] @
         [CHR 0xE0, CHR 0xB0, CHR 0xB0, CHR 0xE0, CHR 0xB1, CHR 0x8D] @
         [CHR 0xE0, CHR 0xB0, CHR 0xAF, CHR 0xE0, CHR 0xB0, CHR 0xBE] @
         [CHR 0xE0, CHR 0xB0, CHR 0xB2, CHR 0xE0, CHR 0xB0, CHR 0xAF] @
         [CHR 0xE0, CHR 0xB0, CHR 0x82]),
        (''Government of India'',
         [CHR 0xE0, CHR 0xB0, CHR 0xAD, CHR 0xE0, CHR 0xB0, CHR 0xBE] @
         [CHR 0xE0, CHR 0xB0, CHR 0xB0, CHR 0xE0, CHR 0xB0, CHR 0xA4] @ '' '' @
         [CHR 0xE0, CHR 0xB0, CHR 0xAA, CHR 0xE0, CHR 0xB1, CHR 0x8D] @
         [CHR 0xE0, CHR 0xB0, CHR 0xB0, CHR 0xE0, CHR 0xB0, CHR 0xAD] @
         [CHR 0xE0, CHR 0xB1, CHR 0x81, CHR 0xE0, CHR 0xB0, CHR 0xA4] @
         [CHR 0xE0, CHR 0xB1, CHR 0x8D, CHR 0xE0, CHR 0xB0, CHR 0xB5] @
         [CHR 0xE0, CHR 0xB0, CHR 0x82]),
        (''Ministry of Home Affairs'',
         [CHR 0xE0, CHR 0xB0, CHR 0x97, CHR 0xE0, CHR 0xB1, CHR 0x83] @
         [CHR 0xE0, CHR 0xB0, CHR 0xB9] @ '' '' @
         [CHR 0xE0, CHR 0xB0, CHR 0xB5, CHR 0xE0, CHR 0xB1, CHR 0x8D] @
         [CHR 0xE0, CHR 0xB0, CHR 0xAF, CHR 0xE0, CHR 0xB0, CHR 0xB5] @
         [CHR 0xE0, CHR 0xB0, CHR 0xB9, CHR 0xE0, CHR 0xB0, CHR 0xBE] @
         [CHR 0xE0, CHR 0xB0, CHR 0xB0, CHR 0xE0, CHR 0xB0, CHR 0xBE] @
         [CHR 0xE0, CHR 0xB0, CHR 0xB2] @ '' '' @
         [CHR 0xE0, CHR 0xB0, CHR 0xAE, CHR 0xE0, CHR 0xB0, CHR 0x82] @
         [CHR 0xE0, CHR 0xB0, CHR 0xA4, CHR 0xE0, CHR 0xB1, CHR 0x8D] @
         [CHR 0xE0, CHR 0xB0, CHR 0xB0, CHR 0xE0, CHR 0xB0, CHR 0xBF] @
         [CHR 0xE0, CHR 0xB0, CHR 0xA4, CHR 0xE0, CHR 0xB1, CHR 0x8D] @
         [CHR 0xE0, CHR 0xB0, CHR 0xB5] @ '' '' @
         [CHR 0xE0, CHR 0xB0, CHR 0xB6, CHR 0xE0, CHR 0xB0, CHR 0xBE] @
         [CHR 0xE0, CHR 0xB0, CHR 0x96]),
        (''TENDER ENQUIRY NOTICE'',
         [CHR 0xE0, CHR 0xB0, CHR 0x9F, CHR 0xE0, CHR 0xB1, CHR 0x86] @
         [CHR 0xE0, CHR 0xB0, CHR 0x82, CHR 0xE0, CHR 0xB0, CHR 0xA1] @
         [CHR 0xE0, CHR 0xB0, CHR 0xB0, CHR 0xE0, CHR 0xB1, CHR 0x8D] @ '' '' @
         [CHR 0xE0, CHR 0xB0, CHR 0xB5, CHR 0xE0, CHR 0xB0, CHR 0xBF] @
         [CHR 0xE0, CHR 0xB0, CHR 0x9A, CHR 0xE0, CHR 0xB0, CHR 0xBE] @
         [CHR 0xE0, CHR 0xB0, CHR 0xB0, CHR 0xE0, CHR 0xB0, CHR 0xA3] @ '' '' @
         [CHR 0xE0, CHR 0xB0, CHR 0xA8, CHR 0xE0, CHR 0xB1, CHR 0x8B] @
         [CHR 0xE0, CHR 0xB0, CHR 0x9F, CHR 0xE0, CHR 0xB1, CHR 0x80] @
         [CHR 0xE0, CHR 0xB0, CHR 0xB8, CHR 0xE0, CHR 0xB1, CHR 0x81]),
        (''Subject:'',
         [CHR 0xE0, CHR 0xB0, CHR 0xB5, CHR 0xE0, CHR 0xB0, CHR 0xBF] @
         [CHR 0xE0, CHR 0xB0, CHR 0xB7, CHR 0xE0, CHR 0xB0, CHR 0xAF] @
         [CHR 0xE0, CHR 0xB0, CHR 0x82] @ '':''),
        (''Dated:'',
         [CHR 0xE0, CHR 0xB0, CHR 0xA4, CHR 0xE0, CHR 0xB1, CHR 0x87] @
         [CHR 0xE0, CHR 0xB0, CHR 0xA6, CHR 0xE0, CHR 0xB1, CHR 0x80] @ '':''),
        (''No.'',
         [CHR 0xE0, CHR 0xB0, CHR 0xB8, CHR 0xE0, CHR 0xB0, CHR 0x82] @
         [CHR 0xE0, CHR 0xB0, CHR 0x96, CHR 0xE0, CHR 0xB1, CHR 0x8D] @
         [CHR 0xE0, CHR 0xB0, CHR 0xAF] @ '':''),
        (''Procurement'',
         [CHR 0xE0, CHR 0xB0, CHR 0x95, CHR 0xE0, CHR 0xB1, CHR 0x8A] @
         [CHR 0xE0, CHR 0xB0, CHR 0xA8, CHR 0xE0, CHR 0xB1, CHR 0x81] @
         [CHR 0xE0, CHR 0xB0, CHR 0x97, CHR 0xE0, CHR 0xB1, CHR 0x8B] @
         [CHR 0xE0, CHR 0xB0, CHR 0xB2, CHR 0xE0, CHR 0xB1, CHR 0x81]),
        (''Supply'',
         [CHR 0xE0, CHR 0xB0, CHR 0xB8, CHR 0xE0, CHR 0xB0, CHR 0xB0] @
         [CHR 0xE0, CHR 0xB0, CHR 0xAB, CHR 0xE0, CHR 0xB0, CHR 0xB0] @
         [CHR 0xE0, CHR 0xB0, CHR 0xBE]),
        (''Services'',
         [CHR 0xE0, CHR 0xB0, CHR 0xB8, CHR 0xE0, CHR 0xB1, CHR 0x87] @
         [CHR 0xE0, CHR 0xB0, CHR 0xB5, CHR 0xE0, CHR 0xB0, CHR 0xB2] @
         [CHR 0xE0, CHR 0xB1, CHR 0x81]),
        (''Contract'',
         [CHR 0xE0, CHR 0xB0, CHR 0x92, CHR 0xE0, CHR 0xB0, CHR 0xAA] @
         [CHR 0xE0, CHR 0xB1, CHR 0x8D, CHR 0xE0, CHR 0xB0, CHR 0xAA] @
         [CHR 0xE0, CHR 0xB0, CHR 0x82, CHR 0xE0, CHR 0xB0, CHR 0xA6] @
         [CHR 0xE0, CHR 0xB0, CHR 0x82]),
        (''Agreement'',
         [CHR 0xE0, CHR 0xB0, CHR 0x92, CHR 0xE0, CHR 0xB0, CHR 0xAA] @
         [CHR 0xE0, CHR 0xB1, CHR 0x8D, CHR 0xE0, CHR 0xB0, CHR 0xAA] @
         [CHR 0xE0, CHR 0xB0, CHR 0x82, CHR 0xE0, CHR 0xB0, CHR 0xA6] @
         [CHR 0xE0, CHR 0xB0, CHR 0x82]),
        (''Terms and Conditions'',
         [CHR 0xE0, CHR 0xB0, CHR 0xA8, CHR 0xE0, CHR 0xB0, CHR 0xBF] @
         [CHR 0xE0, CHR 0xB0, CHR 0xAC, CHR 0xE0, CHR 0xB0, CHR 0x82] @
         [CHR 0xE0, CHR 0xB0, CHR 0xA7, CHR 0xE0, CHR 0xB0, CHR 0xA8] @
         [CHR 0xE0, CHR 0xB0, CHR 0xB2, CHR 0xE0, CHR 0xB1, CHR 0x81] @ '' '' @
         [CHR 0xE0, CHR 0xB0, CHR 0xAE, CHR 0xE0, CHR 0xB0, CHR 0xB0] @
         [CHR 0xE0, CHR 0xB0, CHR 0xBF, CHR 0xE0, CHR 0xB0, CHR 0xAF] @
         [CHR 0xE0, CHR 0xB1, CHR 0x81] @ '' '' @
         [CHR 0xE0, CHR 0xB0, CHR 0xB7, CHR 0xE0, CHR 0xB0, CHR 0xB0] @
         [CHR 0xE0, CHR 0xB0, CHR 0xA4, CHR 0xE0, CHR 0xB1, CHR 0x81] @
         [CHR 0xE0, CHR 0xB0, CHR 0xB2, CHR 0xE0, CHR 0xB1, CHR 0x81])]),
      (''hi'',
       [(''OFFICE OF THE REGISTRAR GENERAL'',
         [CHR 0xE0, CHR 0xA4, CHR 0xB0, CHR 0xE0, CHR 0xA4, CHR 0x9C] @
         [CHR 0xE0, CHR 0xA4, CHR 0xBF, CHR 0xE0, CHR 0xA4, CHR 0xB8] @
         [CHR 0xE0, CHR 0xA5, CHR 0x8D, CHR 0xE0, CHR 0xA4, CHR 0x9F] @
         [CHR 0xE0, CHR 0xA5, CHR 0x8D, CHR 0xE0, CHR 0xA4, CHR 0xB0] @
         [CHR 0xE0, CHR 0xA4, CHR 0xBE, CHR 0xE0, CHR 0xA4, CHR 0xB0] @ '' '' @
         [CHR 0xE0, CHR 0xA4, CHR 0x9C, CHR 0xE0, CHR 0xA4, CHR 0xA8] @
         [CHR 0xE0, CHR 0xA4, CHR 0xB0, CHR 0xE0, CHR 0xA4, CHR 0xB2] @ '' '' @
         [CHR 0xE0, CHR 0xA4, CHR 0x95, CHR 0xE0, CHR 0xA4, CHR 0xBE] @ '' '' @
         [CHR 0xE0, CHR 0xA4, CHR 0x95, CHR 0xE0, CHR 0xA4, CHR 0xBE] @
         [CHR 0xE0, CHR 0xA4, CHR 0xB0, CHR 0xE0, CHR 0xA5, CHR 0x8D] @
         [CHR 0xE0, CHR 0xA4, CHR 0xAF, CHR 0xE0, CHR 0xA4, CHR 0xBE] @
         [CHR 0xE0, CHR 0xA4, CHR 0xB2, CHR 0xE0, CHR 0xA4, CHR 0xAF]),
        (''Government of India'',
         [CHR 0xE0, CHR 0xA4, CHR 0xAD, CHR 0xE0, CHR 0xA4, CHR 0xBE] @
         [CHR 0xE0, CHR 0xA4, CHR 0xB0, CHR 0xE0, CHR 0xA4, CHR 0xA4] @ '' '' @
         [CHR 0xE0, CHR 0xA4, CHR 0xB8, CHR 0xE0, CHR 0xA4, CHR 0xB0] @
         [CHR 0xE0, CHR 0xA4, CHR 0x95, CHR 0xE0, CHR 0xA4, CHR 0xBE] @
         [CHR 0xE0, CHR 0xA4, CHR 0xB0]),
        (''Ministry of Home Affairs'',
         [CHR 0xE0, CHR 0xA4, CHR 0x97, CHR 0xE0, CHR 0xA5, CHR 0x83] @
         [CHR 0xE0, CHR 0xA4, CHR 0xB9] @ '' '' @
         [CHR 0xE0, CHR 0xA4, CHR 0xAE, CHR 0xE0, CHR 0xA4, CHR 0x82] @
         [CHR 0xE0, CHR 0xA4, CHR 0xA4, CHR 0xE0, CHR 0xA5, CHR 0x8D] @
         [CHR 0xE0, CHR 0xA4, CHR 0xB0, CHR 0xE0, CHR 0xA4, CHR 0xBE] @
         [CHR 0xE0, CHR 0xA4, CHR 0xB2, CHR 0xE0, CHR 0xA4, CHR 0xAF]),
        (''TENDER ENQUIRY NOTICE'',
         [CHR 0xE0, CHR 0xA4, CHR 0xA8, CHR 0xE0, CHR 0xA4, CHR 0xBF] @
         [CHR 0xE0, CHR 0xA4, CHR 0xB5, CHR 0xE0, CHR 0xA4, CHR 0xBF] @
         [CHR 0xE0, CHR 0xA4, CHR 0xA6, CHR 0xE0, CHR 0xA4, CHR 0xBE] @ '' '' @
         [CHR 0xE0, CHR 0xA4, CHR 0xAA, CHR 0xE0, CHR 0xA5, CHR 0x82] @
         [CHR 0xE0, CHR 0xA4, CHR 0x9B, CHR 0xE0, CHR 0xA4, CHR 0xA4] @
         [CHR 0xE0, CHR 0xA4, CHR 0xBE, CHR 0xE0, CHR 0xA4, CHR 0x9B] @ '' '' @
         [CHR 0xE0, CHR 0xA4, CHR 0xA8, CHR 0xE0, CHR 0xA5, CHR 0x8B] @
         [CHR 0xE0, CHR 0xA4, CHR 0x9F, CHR 0xE0, CHR 0xA4, CHR 0xBF] @
         [CHR 0xE0, CHR 0xA4, CHR 0xB8]),
        (''Subject:'',
         [CHR 0xE0, CHR 0xA4, CHR 0xB5, CHR 0xE0, CHR 0xA4, CHR 0xBF] @
         [CHR 0xE0, CHR 0xA4, CHR 0xB7, CHR 0xE0, CHR 0xA4, CHR 0xAF] @ '':''),
        (''Dated:'',
         [CHR 0xE0, CHR 0xA4, CHR 0xA6, CHR 0xE0, CHR 0xA4, CHR 0xBF] @
         [CHR 0xE0, CHR 0xA4, CHR 0xA8, CHR 0xE0, CHR 0xA4, CHR 0xBE] @
         [CHR 0xE0, CHR 0xA4, CHR 0x82, CHR 0xE0, CHR 0xA4, CHR 0x95] @ '':''),
        (''No.'',
         [CHR 0xE0, CHR 0xA4, CHR 0xB8, CHR 0xE0, CHR 0xA4, CHR 0x82] @
         [CHR 0xE0, CHR 0xA4, CHR 0x96, CHR 0xE0, CHR 0xA5, CHR 0x8D] @
         [CHR 0xE0, CHR 0xA4, CHR 0xAF, CHR 0xE0, CHR 0xA4, CHR 0xBE] @ '':''),
        (''Procurement'',
         [CHR 0xE0, CHR 0xA4, CHR 0x96, CHR 0xE0, CHR 0xA4, CHR 0xB0] @
         [CHR 0xE0, CHR 0xA5, CHR 0x80, CHR 0xE0, CHR 0xA4, CHR 0xA6]),
        (''Supply'',
         [CHR 0xE0, CHR 0xA4, CHR 0x86, CHR 0xE0, CHR 0xA4, CHR 0xAA] @
         [CHR 0xE0, CHR 0xA5, CHR 0x82, CHR 0xE0, CHR 0xA4, CHR 0xB0] @
         [CHR 0xE0, CHR 0xA5, CHR 0x8D, CHR 0xE0, CHR 0xA4, CHR 0xA4] @
         [CHR 0xE0, CHR 0xA4, CHR 0xBF]),
        (''Services'',
         [CHR 0xE0, CHR 0xA4, CHR 0xB8, CHR 0xE0, CHR 0xA5, CHR 0x87] @
         [CHR 0xE0, CHR 0xA4, CHR 0xB5, CHR 0xE0, CHR 0xA4, CHR 0xBE] @
         [CHR 0xE0, CHR 0xA4, CHR 0x8F, CHR 0xE0, CHR 0xA4, CHR 0x82]),
        (''Contract'',
         [CHR 0xE0, CHR 0xA4, CHR 0x85, CHR 0xE0, CHR 0xA4, CHR 0xA8] @
         [CHR 0xE0, CHR 0xA5, CHR 0x81, CHR 0xE0, CHR 0xA4, CHR 0xAC] @
         [CHR 0xE0, CHR 0xA4, CHR 0x82, CHR 0xE0, CHR 0xA4, CHR 0xA7]),
        (''Agreement'',
         [CHR 0xE0, CHR 0xA4, CHR 0xB8, CHR 0xE0, CHR 0xA4, CHR 0xAE] @
         [CHR 0xE0, CHR 0xA4, CHR 0x9D, CHR 0xE0, CHR 0xA5, CHR 0x8C] @
         [CHR 0xE0, CHR 0xA4, CHR 0xA4, CHR 0xE0, CHR 0xA4, CHR 0xBE]),
        (''Terms and Conditions'',
         [CHR 0xE0, CHR 0xA4, CHR 0xA8, CHR 0xE0, CHR 0xA4, CHR 0xBF] @
         [CHR 0xE0, CHR 0xA4, CHR 0xAF, CHR 0xE0, CHR 0xA4, CHR 0xAE] @ '' '' @
         [CHR 0xE0, CHR 0xA4, CHR 0x94, CHR 0xE0, CHR 0xA4, CHR 0xB0] @ '' '' @
         [CHR 0xE0, CHR 0xA4, CHR 0xB6, CHR 0xE0, CHR 0xA4, CHR 0xB0] @
         [CHR 0xE0, CHR 0xA5, CHR 0x8D, CHR 0xE0, CHR 0xA4, CHR 0xA4] @
         [CHR 0xE0, CHR 0xA5, CHR 0x87, CHR 0xE0, CHR 0xA4, CHR 0x82])]),
      (''ta'',
       [(''OFFICE OF THE REGISTRAR GENERAL'',
         [CHR 0xE0, CHR 0xAE, CHR 0xAA, CHR 0xE0, CHR 0xAE, CHR 0xA4] @
         [CHR 0xE0, CHR 0xAE, CHR 0xBF, CHR 0xE0, CHR 0xAE, CHR 0xB5] @
         [CHR 0xE0, CHR 0xAE, CHR 0xBE, CHR 0xE0, CHR 0xAE, CHR 0xB3] @
         [CHR 0xE0, CHR 0xAE, CHR 0xB0, CHR 0xE0, CHR 0xAF, CHR 0x8D] @ '' '' @
         [CHR 0xE0, CHR 0xAE, CHR 0x9C, CHR 0xE0, CHR 0xAF, CHR 0x86] @
         [CHR 0xE0, CHR 0xAE, CHR 0xA9, CHR 0xE0, CHR 0xAE, CHR 0xB0] @
         [CHR 0xE0, CHR 0xAE, CHR 0xB2, CHR 0xE0, CHR 0xAF, CHR 0x8D] @ '' '' @
         [CHR 0xE0, CHR 0xAE, CHR 0x85, CHR 0xE0, CHR 0xAE, CHR 0xB2] @
         [CHR 0xE0, CHR 0xAF, CHR 0x81, CHR 0xE0, CHR 0xAE, CHR 0xB5] @
         [CHR 0xE0, CHR 0xAE, CHR 0xB2, CHR 0xE0, CHR 0xAE, CHR 0x95] @
         [CHR 0xE0, CHR 0xAE, CHR 0xAE, CHR 0xE0, CHR 0xAF, CHR 0x8D]),
        (''Government of India'',
         [CHR 0xE0, CHR 0xAE, CHR 0x87, CHR 0xE0, CHR 0xAE, CHR 0xA8] @
         [CHR 0xE0, CHR 0xAF, CHR 0x8D, CHR 0xE0, CHR 0xAE, CHR 0xA4] @
         [CHR 0xE0, CHR 0xAE, CHR 0xBF, CHR 0xE0, CHR 0xAE, CHR 0xAF] @ '' '' @
         [CHR 0xE0, CHR 0xAE, CHR 0x85, CHR 0xE0, CHR 0xAE, CHR 0xB0] @
         [CHR 0xE0, CHR 0xAE, CHR 0x9A, CHR 0xE0, CHR 0xAF, CHR 0x81]),
        (''Ministry of Home Affairs'',
         [CHR 0xE0, CHR 0xAE, CHR 0x89, CHR 0xE0, CHR 0xAE, CHR 0xB3] @
         [CHR 0xE0, CHR 0xAF, CHR 0x8D, CHR 0xE0, CHR 0xAE, CHR 0xA4] @
         [CHR 0xE0, CHR 0xAF, CHR 0x81, CHR 0xE0, CHR 0xAE, CHR 0xB1] @
         [CHR 0xE0, CHR 0xAF, CHR 0x88] @ '' '' @
         [CHR 0xE0, CHR 0xAE, CHR 0x85, CHR 0xE0, CHR 0xAE, CHR 0xAE] @
         [CHR 0xE0, CHR 0xAF, CHR 0x88, CHR 0xE0, CHR 0xAE, CHR 0x9A] @
         [CHR 0xE0, CHR 0xAF, CHR 0x8D, CHR 0xE0, CHR 0xAE, CHR 0x9A] @
         [CHR 0xE0, CHR 0xAE, CHR 0x95, CHR 0xE0, CHR 0xAE, CHR 0xAE] @
         [CHR 0xE0, CHR 0xAF, CHR 0x8D]),
        (''TENDER ENQUIRY NOTICE'',
         [CHR 0xE0, CHR 0xAE, CHR 0x9F, CHR 0xE0, CHR 0xAF, CHR 0x86] @
         [CHR 0xE0, CHR 0xAE, CHR 0xA3, CHR 0xE0, CHR 0xAF, CHR 0x8D] @
         [CHR 0xE0, CHR 0xAE, CHR 0x9F, CHR 0xE0, CHR 0xAE, CHR 0xB0] @
         [CHR 0xE0, CHR 0xAF, CHR 0x8D] @ '' '' @
         [CHR 0xE0, CHR 0xAE, CHR 0xB5, CHR 0xE0, CHR 0xAE, CHR 0xBF] @
         [CHR 0xE0, CHR 0xAE, CHR 0x9A, CHR 0xE0, CHR 0xAE, CHR 0xBE] @
         [CHR 0xE0, CHR 0xAE, CHR 0xB0, CHR 0xE0, CHR 0xAE, CHR 0xA3] @
         [CHR 0xE0, CHR 0xAF, CHR 0x88] @ '' '' @
         [CHR 0xE0, CHR 0xAE, CHR 0x85, CHR 0xE0, CHR 0xAE, CHR 0xB1] @
         [CHR 0xE0, CHR 0xAE, CHR 0xBF, CHR 0xE0, CHR 0xAE, CHR 0xB5] @
         [CHR 0xE0, CHR 0xAE, CHR 0xBF, CHR 0xE0, CHR 0xAE, CHR 0xAA] @
         [CHR 0xE0, CHR 0xAF, CHR 0x8D, CHR 0xE0, CHR 0xAE, CHR 0xAA] @
         [CHR 0xE0, CHR 0xAF, CHR 0x81]),
        (''Subject:'',
         [CHR 0xE0, CHR 0xAE, CHR 0xAA, CHR 0xE0, CHR 0xAF, CHR 0x8A] @
         [CHR 0xE0, CHR 0xAE, CHR 0xB0, CHR 0xE0, CHR 0xAF, CHR 0x81] @
         [CHR 0xE0, CHR 0xAE, CHR 0xB3, CHR 0xE0, CHR 0xAF, CHR 0x8D] @ '':''),
        (''Dated:'',
         [CHR 0xE0, CHR 0xAE, CHR 0xA4, CHR 0xE0, CHR 0xAF, CHR 0x87] @
         [CHR 0xE0, CHR 0xAE, CHR 0xA4, CHR 0xE0, CHR 0xAE, CHR 0xBF] @ '':''),
        (''No.'',
         [CHR 0xE0, CHR 0xAE, CHR 0x8E, CHR 0xE0, CHR 0xAE, CHR 0xA3] @
         [CHR 0xE0, CHR 0xAF, CHR 0x8D] @ '':''),
        (''Procurement'',
         [CHR 0xE0, CHR 0xAE, CHR 0x95, CHR 0xE0, CHR 0xAF, CHR 0x8A] @
         [CHR 0xE0, CHR 0xAE, CHR 0xB3, CHR 0xE0, CHR 0xAF, CHR 0x8D] @
         [CHR 0xE0, CHR 0xAE, CHR 0xAE, CHR 0xE0, CHR 0xAF, CHR 0x81] @
         [CHR 0xE0, CHR 0xAE, CHR 0xA4, CHR 0xE0, CHR 0xAE, CHR 0xB2] @
         [CHR 0xE0, CHR 0xAF, CHR 0x8D]),
        (''Supply'',
         [CHR 0xE0, CHR 0xAE, CHR 0xB5, CHR 0xE0, CHR 0xAE, CHR 0xB4] @
         [CHR 0xE0, CHR 0xAE, CHR 0x99, CHR 0xE0, CHR 0xAF, CHR 0x8D] @
         [CHR 0xE0, CHR 0xAE, CHR 0x95, CHR 0xE0, CHR 0xAE, CHR 0xB2] @
         [CHR 0xE0, CHR 0xAF, CHR 0x8D]),
        (''Services'',
         [CHR 0xE0, CHR 0xAE, CHR 0x9A, CHR 0xE0, CHR 0xAF, CHR 0x87] @
         [CHR 0xE0, CHR 0xAE, CHR 0xB5, CHR 0xE0, CHR 0xAF, CHR 0x88] @
         [CHR 0xE0, CHR 0xAE, CHR 0x95, CHR 0xE0, CHR 0xAE, CHR 0xB3] @
         [CHR 0xE0, CHR 0xAF, CHR 0x8D]),
        (''Contract'',
         [CHR 0xE0, CHR 0xAE, CHR 0x92, CHR 0xE0, CHR 0xAE, CHR 0xAA] @
         [CHR 0xE0, CHR 0xAF, CHR 0x8D, CHR 0xE0, CHR 0xAE, CHR 0xAA] @
         [CHR 0xE0, CHR 0xAE, CHR 0xA8, CHR 0xE0, CHR 0xAF, CHR 0x8D] @
         [CHR 0xE0, CHR 0xAE, CHR 0xA4, CHR 0xE0, CHR 0xAE, CHR 0xAE] @
         [CHR 0xE0, CHR 0xAF, CHR 0x8D]),
        (''Agreement'',
         [CHR 0xE0, CHR 0xAE, CHR 0x92, CHR 0xE0, CHR 0xAE, CHR 0xAA] @
         [CHR 0xE0, CHR 0xAF, CHR 0x8D, CHR 0xE0, CHR 0xAE, CHR 0xAA] @
         [CHR 0xE0, CHR 0xAE, CHR 0xA8, CHR 0xE0, CHR 0xAF, CHR 0x8D] @
         [CHR 0xE0, CHR 0xAE, CHR 0xA4, CHR 0xE0, CHR 0xAE, CHR 0xAE] @
         [CHR 0xE0, CHR 0xAF, CHR 0x8D]),
        (''Terms and Conditions'',
         [CHR 0xE0, CHR 0xAE, CHR 0xB5, CHR 0xE0, CHR 0xAE, CHR 0xBF] @
         [CHR 0xE0, CHR 0xAE, CHR 0xA4, CHR 0xE0, CHR 0xAE, CHR 0xBF] @
         [CHR 0xE0, CHR 0xAE, CHR 0xAE, CHR 0xE0, CHR 0xAF, CHR 0x81] @
         [CHR 0xE0, CHR 0xAE, CHR 0xB1, CHR 0xE0, CHR 0xAF, CHR 0x88] @
         [CHR 0xE0, CHR 0xAE, CHR 0x95, CHR 0xE0, CHR 0xAE, CHR 0xB3] @
         [CHR 0xE0, CHR 0xAF, CHR 0x8D] @ '' '' @
         [CHR 0xE0, CHR 0xAE, CHR 0xAE, CHR 0xE0, CHR 0xAE, CHR 0xB1] @
         [CHR 0xE0, CHR 0xAF, CHR 0x8D, CHR 0xE0, CHR 0xAE, CHR 0xB1] @
         [CHR 0xE0, CHR 0xAF, CHR 0x81, CHR 0xE0, CHR 0xAE, CHR 0xAE] @
         [CHR 0xE0, CHR 0xAF, CHR 0x8D] @ '' '' @
         [CHR 0xE0, CHR 0xAE, CHR 0xA8, CHR 0xE0, CHR 0xAE, CHR 0xBF] @
         [CHR 0xE0, CHR 0xAE, CHR 0xAA, CHR 0xE0, CHR 0xAE, CHR 0xA8] @
         [CHR 0xE0, CHR 0xAF, CHR 0x8D, CHR 0xE0, CHR 0xAE, CHR 0xA4] @
         [CHR 0xE0, CHR 0xAE, CHR 0xA9, CHR 0xE0, CHR 0xAF, CHR 0x88] @
         [CHR 0xE0, CHR 0xAE, CHR 0x95, CHR 0xE0, CHR 0xAE, CHR 0xB3] @
         [CHR 0xE0, CHR 0xAF, CHR 0x8D])])]"

text \<open>
  The substitutions are applied one after the other, in the order of the table, each to
  the result of the one before.
\<close>

definition apply_translations :: "(string \<times> string) list \<Rightarrow> string \<Rightarrow> string" where
  "apply_translations translations text =
     foldl (\<lambda>translated_text (english_term, translated_term).
              replace english_term translated_term translated_text) text translations"

text \<open>\<open>fallback_translations.get(target_language, {})\<close>.\<close>

definition translations_for :: "string \<Rightarrow> (string \<times> string) list" where
  "translations_for target_language =
     (case map_of fallback_translations target_language of
        Some t \<Rightarrow> t
      | None \<Rightarrow> [])"

definition unavailable_note :: "string \<Rightarrow> string \<Rightarrow> string" where
  "unavailable_note text target_language =
     ''['' @ str_upper target_language @ ''] '' @ text @
     '' [Translation unavailable - Ollama service required]''"

definition fallback_translation :: "string \<Rightarrow> string \<Rightarrow> string" where
  "fallback_translation text target_language =
     (let translations = translations_for target_language;
          translated_text = apply_translations translations text
      in if translated_text = text then unavailable_note text target_language
         else translated_text)"

definition translate_prompt :: "string \<Rightarrow> string \<Rightarrow> string" where
  \<open>translate_prompt text target_language =
     (let lang_info = get_language_info target_language in
      if target_language = ''en'' then
        ''Improve this government document text for better clarity and formal tone '' @
        ''while maintaining all legal meaning:\<newline>\<newline>'' @
        text @ ''\<newline>\<newline>'' @
        ''Provide improved English version:''
      else
        ''Translate this government document to '' @ li_name lang_info @ '' ('' @
        li_native lang_info @ '') maintaining:\<newline>\<newline>'' @
        ''1. Exact legal meaning and structure\<newline>'' @
        ''2. Formal government document tone  \<newline>'' @
        ''3. All dates, numbers, and references intact\<newline>'' @
        ''4. Complete sentences and proper grammar\<newline>\<newline>'' @
        ''Document:\<newline>'' @ text @ ''\<newline>\<newline>'' @
        ''Provide complete translation in '' @ li_name lang_info @ '':'')\<close>

definition translate_text :: "llm \<Rightarrow> string \<Rightarrow> string \<Rightarrow> string \<Rightarrow> string \<times> llm_call list" where
  "translate_text generate text model target_language =
     (let prompt = translate_prompt text target_language in
      case generate model prompt of
        Some translated_text \<Rightarrow> (translated_text, [(model, prompt)])
      | None \<Rightarrow> (fallback_translation text target_language, [(model, prompt)]))"

definition agents_prompt :: "string \<Rightarrow> string \<Rightarrow> string" where
  \<open>agents_prompt text target_language =
     (let lang_info = get_language_info target_language in
      ''You are a professional legal translator. Translate this government document to '' @
      li_name lang_info @ '' ('' @ li_native lang_info @
      '') maintaining:\<newline>\<newline>'' @
      ''1. EXACT legal meaning and structure\<newline>'' @
      ''2. Formal government document tone\<newline>'' @
      ''3. All dates, numbers, and references intact\<newline>'' @
      ''4. Legal terminology accuracy\<newline>'' @
      ''5. Complete sentences and proper grammar\<newline>\<newline>'' @
      ''Document to translate:\<newline>'' @
      text @ ''\<newline>\<newline>'' @
      ''Provide the complete translation in '' @ li_name lang_info @ '':'')\<close>

definition translate_text_with_agents ::
  "llm \<Rightarrow> string \<Rightarrow> string \<Rightarrow> string \<Rightarrow> string \<times> llm_call list" where
  "translate_text_with_agents generate text model target_language =
     (let prompt = agents_prompt text target_language in
      case generate model prompt of
        Some translated_text \<Rightarrow> (translated_text, [(model, prompt)])
      | None \<Rightarrow> (fallback_translation text target_language, [(model, prompt)]))"

subsection \<open>Layout reconstruction: the overlays of \<open>create_processed_html\<close>\<close>

datatype py_error = ValueError | ZeroDivisionError

text \<open>
  An entry of \<open>text_overlays\<close>. The percentages are Python floats, here rationals;
  \<open>font_size\<close> is an integer.
\<close>

record overlay =
  o_text :: string
  o_left :: rat
  o_top :: rat
  o_width :: rat
  o_height :: rat
  o_font_size :: int
  o_action :: string

text \<open>\<open>int(x)\<close> on a float: truncation towards zero.\<close>

definition py_int :: "rat \<Rightarrow> int" where
  "py_int x = (if 0 \<le> x then \<lfloor>x\<rfloor> else \<lceil>x\<rceil>)"

definition font_size_of :: "rat \<Rightarrow> int" where
  "font_size_of height_pct = max 8 (min 16 (py_int (height_pct * (8 / 10))))"

text \<open>
  \<open>user_actions.get(str(i), 'preserve')\<close>: the actions are keyed by the index in
  decimal. An action is a string, as the page sends it; the code compares it with
  \<open>'whiteout'\<close> and \<open>'translate'\<close> and treats every other value as \<open>preserve\<close>.
\<close>

definition action_of :: "(string \<rightharpoonup> string) \<Rightarrow> nat \<Rightarrow> string" where
  "action_of user_actions i =
     (case user_actions (str_nat i) of
        None \<Rightarrow> ''preserve''
      | Some action \<Rightarrow> action)"

text \<open>
  The body of the loop for a region that is not skipped. \<open>min\<close> and \<open>max\<close> of an empty
  list of coordinates raise \<open>ValueError\<close>; the divisions by the image's width and
  height raise \<open>ZeroDivisionError\<close> at zero.
\<close>

definition make_overlay ::
  "int \<Rightarrow> int \<Rightarrow> string list \<Rightarrow> string \<Rightarrow> nat \<Rightarrow> bbox_info \<Rightarrow> py_error + overlay" where
  "make_overlay img_width img_height translated_lines action i bbox =
     (let text_to_draw =
            (if action = ''translate'' \<and> i < length translated_lines
             then py_strip (translated_lines ! i)
             else r_text bbox);
          x_coords = map fst (r_bbox bbox);
          y_coords = map snd (r_bbox bbox)
      in if x_coords = [] then Inl ValueError
         else
           (let x_min = Min (set x_coords); x_max = Max (set x_coords);
                y_min = Min (set y_coords); y_max = Max (set y_coords)
            in if img_width = 0 then Inl ZeroDivisionError
               else if img_height = 0 then Inl ZeroDivisionError
               else
                 (let left_pct = (x_min / of_int img_width) * 100;
                      top_pct = (y_min / of_int img_height) * 100;
                      width_pct = ((x_max - x_min) / of_int img_width) * 100;
                      height_pct = ((y_max - y_min) / of_int img_height) * 100
                  in Inr \<lparr>o_text = text_to_draw, o_left = left_pct, o_top = top_pct,
                          o_width = width_pct, o_height = height_pct,
                          o_font_size = font_size_of height_pct, o_action = action\<rparr>)))"

text \<open>One turn of the loop: nothing for a whiteout region, else the region's overlay.\<close>

definition region_overlay ::
  "int \<Rightarrow> int \<Rightarrow> string list \<Rightarrow> (string \<rightharpoonup> string) \<Rightarrow> nat \<Rightarrow> bbox_info
     \<Rightarrow> py_error + overlay option" where
  "region_overlay img_width img_height translated_lines user_actions i bbox =
     (let action = action_of user_actions i in
      if action = ''whiteout'' then Inr None
      else
        (case make_overlay img_width img_height translated_lines action i bbox of
           Inl e \<Rightarrow> Inl e
         | Inr ov \<Rightarrow> Inr (Some ov)))"

text \<open>
  \<open>for i, bbox in enumerate(bboxes)\<close>, from index \<open>i\<close> on, with the overlays appended
  so far in \<open>text_overlays\<close>. An exception leaves the loop and the function.
\<close>

fun overlays_loop ::
  "int \<Rightarrow> int \<Rightarrow> string list \<Rightarrow> (string \<rightharpoonup> string) \<Rightarrow> nat \<Rightarrow> bbox_info list
     \<Rightarrow> overlay list \<Rightarrow> py_error + overlay list" where
  "overlays_loop img_width img_height translated_lines user_actions i [] text_overlays =
     Inr text_overlays"
| "overlays_loop img_width img_height translated_lines user_actions i (bbox # rest)
     text_overlays =
     (case region_overlay img_width img_height translated_lines user_actions i bbox of
        Inl e \<Rightarrow> Inl e
      | Inr None \<Rightarrow>
          overlays_loop img_width img_height translated_lines user_actions (Suc i) rest
            text_overlays
      | Inr (Some ov) \<Rightarrow>
          overlays_loop img_width img_height translated_lines user_actions (Suc i) rest
            (text_overlays @ [ov]))"

text \<open>
  The list \<open>text_overlays\<close> that \<open>create_processed_html\<close> builds and then prints into
  the page, one positioned block per entry. The image's size is that of the file opened.
\<close>

definition create_processed_html ::
  "int \<Rightarrow> int \<Rightarrow> bbox_info list \<Rightarrow> string list \<Rightarrow> (string \<rightharpoonup> string)
     \<Rightarrow> py_error + overlay list" where
  "create_processed_html img_width img_height bboxes translated_lines user_actions =
     overlays_loop img_width img_height translated_lines user_actions 0 bboxes []"

definition font_families :: "(string \<times> string) list" where
  "font_families =
     [(''te'', ''Noto+Sans+Telugu''),
      (''hi'', ''Noto+Sans+Devanagari''),
      (''ta'', ''Noto+Sans+Tamil''),
      (''kn'', ''Noto+Sans+Kannada''),
      (''ml'', ''Noto+Sans+Malayalam''),
      (''gu'', ''Noto+Sans+Gujarati''),
      (''pa'', ''Noto+Sans+Gurmukhi''),
      (''bn'', ''Noto+Sans+Bengali''),
      (''or'', ''Noto+Sans+Oriya''),
      (''en'', ''Roboto'')]"

definition get_font_family :: "string \<Rightarrow> string" where
  "get_font_family lang_code =
     (case map_of font_families lang_code of
        Some family \<Rightarrow> family
      | None \<Rightarrow> ''Noto+Sans+Telugu'')"

subsection \<open>The endpoints \<open>/upload\<close> and \<open>/process\<close>\<close>

text \<open>The globals of the module: one document for the whole process.\<close>

record session =
  current_image_path :: "string option"
  current_bboxes :: "bbox_info list"
  current_translated_text :: "string list"
  current_target_language :: string

definition initial_session :: session where
  "initial_session =
     \<lparr>current_image_path = None, current_bboxes = [], current_translated_text = [],
      current_target_language = ''te''\<rparr>"

text \<open>
  The loop \<open>for i, bbox in enumerate(bboxes)\<close> of \<open>upload_image\<close> that translates: one
  call of \<open>translate_text_with_agents\<close> or of \<open>translate_text\<close> for each region, on
  that region's text. It returns \<open>translated_lines\<close> and the calls made to the model.
\<close>

fun translate_regions ::
  "llm \<Rightarrow> bool \<Rightarrow> string \<Rightarrow> string \<Rightarrow> bbox_info list \<Rightarrow> string list \<times> llm_call list" where
  "translate_regions generate agent_mode model target_language [] = ([], [])"
| "translate_regions generate agent_mode model target_language (bbox # rest) =
     (let region_text = r_text bbox;
          (region_translated, calls) =
            (if agent_mode
             then translate_text_with_agents generate region_text model target_language
             else translate_text generate region_text model target_language);
          (translated_lines, later) =
            translate_regions generate agent_mode model target_language rest
      in (region_translated # translated_lines, calls @ later))"

record region_data =
  rd_id :: nat
  rd_title :: string
  rd_text :: string
  rd_translated :: string
  rd_x :: rat
  rd_y :: rat
  rd_width :: rat
  rd_height :: rat
  rd_action :: string

definition region_entry :: "string list \<Rightarrow> nat \<Rightarrow> bbox_info \<Rightarrow> py_error + region_data" where
  "region_entry translated_lines i bbox =
     (let x_coords = map fst (r_bbox bbox);
          y_coords = map snd (r_bbox bbox)
      in if x_coords = [] then Inl ValueError
         else
           (let x_min = Min (set x_coords); x_max = Max (set x_coords);
                y_min = Min (set y_coords); y_max = Max (set y_coords)
            in Inr \<lparr>rd_id = i,
                    rd_title = ''Text Region '' @ str_nat (i + 1),
                    rd_text = r_text bbox,
                    rd_translated =
                      (if i < length translated_lines then translated_lines ! i
                       else r_text bbox),
                    rd_x = x_min, rd_y = y_min,
                    rd_width = x_max - x_min, rd_height = y_max - y_min,
                    rd_action = ''preserve''\<rparr>))"

fun text_regions ::
  "string list \<Rightarrow> nat \<Rightarrow> bbox_info list \<Rightarrow> region_data list \<Rightarrow> py_error + region_data list" where
  "text_regions translated_lines i [] regions = Inr regions"
| "text_regions translated_lines i (bbox # rest) regions =
     (case region_entry translated_lines i bbox of
        Inl e \<Rightarrow> Inl e
      | Inr region \<Rightarrow> text_regions translated_lines (Suc i) rest (regions @ [region]))"

datatype upload_response =
  UploadOk "region_data list"
| NoTextDetected
| UploadError py_error

record upload_outcome =
  response :: upload_response
  session_after :: session
  ocr_calls :: "ocr_call list"
  llm_calls :: "llm_call list"

definition form_get :: "(string \<rightharpoonup> string) \<Rightarrow> string \<Rightarrow> string \<Rightarrow> string" where
  "form_get form key fallback = (case form key of None \<Rightarrow> fallback | Some v \<Rightarrow> v)"

text \<open>
  \<open>upload_image\<close>, from the saved file on: \<open>file_path\<close> is where the upload was saved,
  \<open>reader\<close> what the OCR engine does on it, \<open>form\<close> the fields of the request.
\<close>

definition upload_image ::
  "ocr_reader \<Rightarrow> llm \<Rightarrow> (string \<rightharpoonup> string) \<Rightarrow> string \<Rightarrow> session \<Rightarrow> upload_outcome" where
  "upload_image reader generate form file_path s =
     (case process_image_with_ocr reader of
        (bboxes, ocr_log) \<Rightarrow>
          (let s1 = s\<lparr>current_image_path := Some file_path, current_bboxes := bboxes\<rparr> in
           if bboxes = [] then
             \<lparr>response = NoTextDetected, session_after = s1,
              ocr_calls = ocr_log, llm_calls = []\<rparr>
           else
             (let model = form_get form ''model'' ''gemma3-legal-samanantar-pro:latest'';
                  agent_mode = (str_lower (form_get form ''agent_mode'' ''false'') = ''true'');
                  target_language = form_get form ''target_language'' ''te''
              in case translate_regions generate agent_mode model target_language bboxes of
                   (translated_lines, llm_log) \<Rightarrow>
                     (let s2 = s1\<lparr>current_translated_text := translated_lines,
                                   current_target_language := target_language\<rparr>
                      in \<lparr>response =
                              (case text_regions translated_lines 0 bboxes [] of
                                 Inl e \<Rightarrow> UploadError e
                               | Inr regions \<Rightarrow> UploadOk regions),
                            session_after = s2,
                            ocr_calls = ocr_log, llm_calls = llm_log\<rparr>))))"

text \<open>
  The text \<open>original_text\<close> that \<open>upload_image\<close> joins from the regions. The code only
  prints its first characters.
\<close>

fun join :: "string \<Rightarrow> string list \<Rightarrow> string" where
  "join sep [] = []"
| "join sep [x] = x"
| "join sep (x # y # ys) = x @ sep @ join sep (y # ys)"

definition original_text :: "bbox_info list \<Rightarrow> string" where
  "original_text bboxes = join ''\<newline>'' (map r_text bboxes)"

datatype process_response =
  ProcessOk "overlay list"
| NoImageProcessed
| ProcessError py_error

text \<open>
  \<open>process_document\<close>: \<open>actions\<close> is the request's \<open>actions\<close> object (empty when the
  request has none), the size is that of the image saved at \<open>current_image_path\<close>.
\<close>

definition process_document ::
  "int \<Rightarrow> int \<Rightarrow> (string \<rightharpoonup> string) \<Rightarrow> session \<Rightarrow> process_response" where
  "process_document img_width img_height user_actions s =
     (if current_image_path s = None \<or> current_bboxes s = [] then NoImageProcessed
      else
        (case create_processed_html img_width img_height (current_bboxes s)
                (current_translated_text s) user_actions of
           Inl e \<Rightarrow> ProcessError e
         | Inr text_overlays \<Rightarrow> ProcessOk text_overlays))"

subsection \<open>The agent framework of the page (JavaScript)\<close>

text \<open>
  A JavaScript value as \<open>JSON.parse\<close> gives it, and \<open>undefined\<close> for a property that
  is not there. A number is the rational it stands for. An object lists each key once.
\<close>

datatype jsval =
  JUndefined
| JNull
| JBool bool
| JNum rat
| JStr string
| JArr "jsval list"
| JObj "(string \<times> jsval) list"

datatype js_error = OllamaError | TypeError

text \<open>What \<open>if (v)\<close>, \<open>!v\<close> and \<open>v || w\<close> test.\<close>

fun truthy :: "jsval \<Rightarrow> bool" where
  "truthy JUndefined = False"
| "truthy JNull = False"
| "truthy (JBool b) = b"
| "truthy (JNum n) = (n \<noteq> 0)"
| "truthy (JStr s) = (s \<noteq> [])"
| "truthy (JArr xs) = True"
| "truthy (JObj kvs) = True"

definition js_or :: "jsval \<Rightarrow> jsval \<Rightarrow> jsval" where
  "js_or v w = (if truthy v then v else w)"

text \<open>
  \<open>v.key\<close> for the keys the code reads (\<open>status\<close>, \<open>isConsistent\<close>, \<open>mixedWords\<close>,
  \<open>mixedLanguages\<close>, \<open>consistencyScore\<close>, \<open>recommendations\<close>): a \<open>TypeError\<close> on
  \<open>null\<close> and \<open>undefined\<close>, the value of the key in an object that has it, \<open>undefined\<close>
  otherwise.
\<close>

definition nullish :: "jsval \<Rightarrow> bool" where
  "nullish v = (v = JNull \<or> v = JUndefined)"

fun js_get :: "jsval \<Rightarrow> string \<Rightarrow> jsval" where
  "js_get (JObj kvs) key = (case map_of kvs key of Some v \<Rightarrow> v | None \<Rightarrow> JUndefined)"
| "js_get v key = JUndefined"

definition get_prop :: "jsval \<Rightarrow> string \<Rightarrow> js_error + jsval" where
  "get_prop v key = (if nullish v then Inl TypeError else Inr (js_get v key))"

text \<open>\<open>s.includes(sub)\<close>: \<open>sub\<close> stands somewhere in \<open>s\<close>.\<close>

fun js_includes :: "string \<Rightarrow> string \<Rightarrow> bool" where
  "js_includes [] sub = (sub = [])"
| "js_includes (c # cs) sub = (prefix sub (c # cs) \<or> js_includes cs sub)"

text \<open>
  The collaborators: the endpoint \<open>/api/ollama\<close> (the reply's \<open>response\<close> for a model
  and a prompt, \<open>None\<close> when the request fails) and \<open>JSON.parse\<close> (\<open>None\<close> when it throws).
  A function that calls the endpoint takes the requests sent so far and returns them
  with its own: \<open>callOllama\<close> adds the request it sends, whether or not it succeeds.
\<close>

type_synonym ollama_api = "string \<Rightarrow> string \<Rightarrow> string option"

type_synonym json_parse = "string \<Rightarrow> jsval option"

definition callOllama ::
  "ollama_api \<Rightarrow> string \<Rightarrow> string \<Rightarrow> llm_call list \<Rightarrow> (js_error + string) \<times> llm_call list" where
  "callOllama api model prompt sent =
     (case api model prompt of
        None \<Rightarrow> (Inl OllamaError, sent @ [(model, prompt)])
      | Some reply \<Rightarrow> (Inr (js_trim reply), sent @ [(model, prompt)]))"

definition language_names :: "(string \<times> string) list" where
  "language_names =
     [(''en'', ''English''), (''te'', ''Telugu''), (''kn'', ''Kannada''),
      (''ta'', ''Tamil''), (''hi'', ''Hindi''), (''bn'', ''Bengali''),
      (''gu'', ''Gujarati''), (''pa'', ''Punjabi''), (''mr'', ''Marathi''),
      (''or'', ''Odia''), (''as'', ''Assamese''), (''ne'', ''Nepali''),
      (''ur'', ''Urdu''), (''ml'', ''Malayalam''), (''si'', ''Sinhala''),
      (''my'', ''Burmese''), (''th'', ''Thai''), (''km'', ''Khmer''),
      (''lo'', ''Lao''), (''vi'', ''Vietnamese''), (''es'', ''Spanish''),
      (''fr'', ''French''), (''de'', ''German''), (''ja'', ''Japanese''),
      (''ko'', ''Korean''), (''zh'', ''Chinese'')]"

definition getLanguageName :: "string \<Rightarrow> string" where
  "getLanguageName langCode =
     (case map_of language_names langCode of
        Some name \<Rightarrow> name
      | None \<Rightarrow> langCode)"

definition context_prompt :: "string \<Rightarrow> string \<Rightarrow> string" where
  \<open>context_prompt text targetLanguageName =
     ''You are a Legal Context Specialist. Analyze this document and identify:\<newline>'' @
     ''\<newline>'' @
     ''1. DOCUMENT TYPE: What specific legal document is this? (Contract, NDA, '' @
     ''SLA, Court Filing, Patent, etc.)\<newline>'' @
     ''2. LEGAL JURISDICTION: Which legal system? (US, EU, India, UK, etc.)\<newline>'' @
     ''3. LEGAL DOMAIN: What area of law? (Corporate, IP, Employment, Real Estate, '' @
     ''etc.)\<newline>'' @
     ''4. FORMALITY LEVEL: How formal/technical is the language?\<newline>'' @
     ''5. CRITICAL ELEMENTS: What legal concepts are central?\<newline>\<newline>'' @
     ''Document to analyze:\<newline>'' @
     text @ ''\<newline>\<newline>'' @
     ''Respond with structured analysis for '' @ targetLanguageName @
     '' translation:''\<close>

definition analyzeContext ::
  "ollama_api \<Rightarrow> string \<Rightarrow> string \<Rightarrow> string \<Rightarrow> string \<Rightarrow> llm_call list
     \<Rightarrow> (js_error + string) \<times> llm_call list" where
  "analyzeContext api model text sourceLang targetLang sent =
     callOllama api model (context_prompt text (getLanguageName targetLang)) sent"

definition translation_prompt :: "string \<Rightarrow> string \<Rightarrow> string \<Rightarrow> string" where
  \<open>translation_prompt text targetLanguageName context =
     ''You are a Legal Translation Precision Engine. Translate this document to '' @
     targetLanguageName @ '' with STRICT LEGAL PRECISION:\<newline>\<newline>'' @
     ''CONTEXT ANALYSIS:\<newline>'' @
     context @ ''\<newline>\<newline>'' @
     ''TRANSLATION RULES:\<newline>'' @
     ''1. Preserve EXACT sentence structure and dependent clauses\<newline>'' @
     ''2. Maintain ALL conditional logic ("if-then" statements)\<newline>'' @
     ''3. Keep ALL deadlines and time references intact\<newline>'' @
     ''4. Preserve ALL legal obligations and rights\<newline>'' @
     ''5. NO stylistic changes that could alter legal meaning\<newline>\<newline>'' @
     ''Document to translate:\<newline>'' @
     text @ ''\<newline>\<newline>'' @
     ''Provide precise legal translation:''\<close>

definition translate ::
  "ollama_api \<Rightarrow> string \<Rightarrow> string \<Rightarrow> string \<Rightarrow> string \<Rightarrow> string \<Rightarrow> llm_call list
     \<Rightarrow> (js_error + string) \<times> llm_call list" where
  "translate api model text sourceLang targetLang context sent =
     callOllama api model (translation_prompt text (getLanguageName targetLang) context) sent"

definition validation_prompt :: "string \<Rightarrow> string \<Rightarrow> string" where
  \<open>validation_prompt originalText translatedText =
     ''You are a Legal Validation Specialist. Perform legal review:\<newline>\<newline>'' @
     ''ORIGINAL TEXT:\<newline>'' @ originalText @ ''\<newline>\<newline>'' @
     ''TRANSLATED TEXT:\<newline>'' @ translatedText @ ''\<newline>\<newline>'' @
     ''FINAL VALIDATION CHECKLIST:\<newline>'' @
     ''1. LEGAL ENFORCEABILITY: Does translated document have same legal effect?\<newline>'' @
     ''2. PRECISION: Are all legal obligations preserved?\<newline>'' @
     ''3. CONSISTENCY: Are all terms used consistently?\<newline>'' @
     ''4. COMPLETENESS: Is no legal content lost or altered?\<newline>'' @
     ''5. FORMALITY: Is appropriate legal tone maintained?\<newline>\<newline>'' @
     ''Respond with JSON:\<newline>'' @
     ''{\<newline>'' @ ''    "status": "valid/invalid/needs_revision",\<newline>'' @
     ''    "score": 0-100,\<newline>'' @
     ''    "issues": ["issue1", "issue2"],\<newline>'' @
     ''    "recommendations": ["rec1", "rec2"]\<newline>'' @
     ''}''\<close>

definition validation_fallback :: jsval where
  "validation_fallback =
     JObj [(''status'', JStr ''needs_revision''),
           (''score'', JNum 50),
           (''issues'', JArr [JStr ''JSON parsing failed'']),
           (''recommendations'', JArr [JStr ''Manual review required''])]"

definition validateTranslation ::
  "ollama_api \<Rightarrow> json_parse \<Rightarrow> string \<Rightarrow> string \<Rightarrow> string \<Rightarrow> string \<Rightarrow> string
     \<Rightarrow> llm_call list \<Rightarrow> (js_error + jsval) \<times> llm_call list" where
  "validateTranslation api parse model originalText translatedText sourceLang targetLang sent =
     (case callOllama api model (validation_prompt originalText translatedText) sent of
        (Inl e, sent') \<Rightarrow> (Inl e, sent')
      | (Inr result, sent') \<Rightarrow>
          (case parse result of
             Some verdict \<Rightarrow> (Inr verdict, sent')
           | None \<Rightarrow> (Inr validation_fallback, sent')))"

definition quality_prompt :: "string \<Rightarrow> string \<Rightarrow> string \<Rightarrow> string" where
  \<open>quality_prompt originalText translatedText context =
     ''You are a Legal Quality Assurance Specialist. Improve this translation:\<newline>'' @
     ''\<newline>'' @ ''ORIGINAL TEXT:\<newline>'' @
     originalText @ ''\<newline>\<newline>'' @
     ''CURRENT TRANSLATION:\<newline>'' @
     translatedText @ ''\<newline>\<newline>'' @
     ''CONTEXT:\<newline>'' @ context @ ''\<newline>\<newline>'' @
     ''Provide improved translation maintaining legal precision:''\<close>

definition improveTranslation ::
  "ollama_api \<Rightarrow> string \<Rightarrow> string \<Rightarrow> string \<Rightarrow> string \<Rightarrow> string \<Rightarrow> string
     \<Rightarrow> llm_call list \<Rightarrow> (js_error + string) \<times> llm_call list" where
  "improveTranslation api model originalText translatedText sourceLang targetLang context sent =
     callOllama api model (quality_prompt originalText translatedText context) sent"

definition consistency_prompt :: "string \<Rightarrow> string \<Rightarrow> string \<Rightarrow> string" where
  \<open>consistency_prompt text targetLanguageName originalText =
     ''You are a language consistency expert. Analyze the following text for '' @
     ''language mixing.\<newline>\<newline>'' @
     ''Original text:\<newline>'' @ originalText @ ''\<newline>\<newline>'' @
     ''Translated text (should be in '' @ targetLanguageName @ ''):\<newline>'' @
     text @ ''\<newline>\<newline>'' @
     ''CRITICAL ANALYSIS REQUIRED:\<newline>'' @
     ''1. Check if the translation uses ONLY '' @ targetLanguageName @
     '' language\<newline>'' @
     ''2. Identify any words from other languages (English, Telugu, Tamil, Hindi, '' @
     ''etc.)\<newline>'' @ ''3. Look for mixed language patterns\<newline>'' @
     ''4. Verify consistency in terminology\<newline>\<newline>'' @
     ''Respond with a JSON object:\<newline>'' @
     ''{\<newline>'' @ ''    "isConsistent": true/false,\<newline>'' @
     ''    "mixedWords": ["word1", "word2"],\<newline>'' @
     ''    "mixedLanguages": ["language1", "language2"],\<newline>'' @
     ''    "consistencyScore": 0-100,\<newline>'' @
     ''    "recommendations": ["recommendation1", "recommendation2"]\<newline>'' @
     ''}''\<close>

record consistency =
  isConsistent :: jsval
  mixedWords :: jsval
  mixedLanguages :: jsval
  consistencyScore :: jsval
  recommendations :: jsval
  targetLanguage :: string

definition consistency_fallback :: "string \<Rightarrow> string \<Rightarrow> consistency" where
  "consistency_fallback result targetLanguageName =
     \<lparr>isConsistent = JBool (\<not> js_includes (str_lower result) ''inconsistent''),
      mixedWords = JArr [],
      mixedLanguages = JArr [],
      consistencyScore = JNum 50,
      recommendations = JArr [JStr ''Manual review recommended''],
      targetLanguage = targetLanguageName\<rparr>"

text \<open>
  The \<open>try\<close> block holds \<open>JSON.parse\<close> and the reads of the parsed value's properties:
  the \<open>catch\<close> is entered when the parse throws, and when the parsed value is \<open>null\<close>
  (the first property read throws).
\<close>

definition checkConsistency ::
  "ollama_api \<Rightarrow> json_parse \<Rightarrow> string \<Rightarrow> string \<Rightarrow> string \<Rightarrow> string
     \<Rightarrow> llm_call list \<Rightarrow> (js_error + consistency) \<times> llm_call list" where
  "checkConsistency api parse model text targetLang originalText sent =
     (let targetLanguageName = getLanguageName targetLang in
      case callOllama api model (consistency_prompt text targetLanguageName originalText)
             sent of
        (Inl e, sent') \<Rightarrow> (Inl e, sent')
      | (Inr result, sent') \<Rightarrow>
          (case parse result of
             None \<Rightarrow> (Inr (consistency_fallback result targetLanguageName), sent')
           | Some analysis \<Rightarrow>
               if nullish analysis
               then (Inr (consistency_fallback result targetLanguageName), sent')
               else
                 (Inr \<lparr>isConsistent = js_get analysis ''isConsistent'',
                       mixedWords = js_or (js_get analysis ''mixedWords'') (JArr []),
                       mixedLanguages = js_or (js_get analysis ''mixedLanguages'') (JArr []),
                       consistencyScore =
                         js_or (js_get analysis ''consistencyScore'') (JNum 0),
                       recommendations =
                         js_or (js_get analysis ''recommendations'') (JArr []),
                       targetLanguage = targetLanguageName\<rparr>,
                  sent')))"

datatype agent =
  contextAnalyzer
| translator
| validator
| qualityAssurance
| languageConsistencyChecker

text \<open>
  A run of \<open>executeTranslationPipeline\<close>: the text it returns or the error it throws,
  the agents \<open>executeAgent\<close> was called for, in order, and the requests the agents sent
  to the endpoint, in order.
\<close>

record pipeline_outcome =
  final_output :: "js_error + string"
  executed :: "agent list"
  requests :: "llm_call list"

definition executeTranslationPipeline ::
  "ollama_api \<Rightarrow> json_parse \<Rightarrow> string \<Rightarrow> string \<Rightarrow> string \<Rightarrow> string \<Rightarrow> pipeline_outcome" where
  "executeTranslationPipeline api parse model originalText sourceLang targetLang =
     (case analyzeContext api model originalText sourceLang targetLang [] of
        (Inl e, sent1) \<Rightarrow>
          \<lparr>final_output = Inl e, executed = [contextAnalyzer], requests = sent1\<rparr>
      | (Inr context, sent1) \<Rightarrow>
     (case translate api model originalText sourceLang targetLang context sent1 of
        (Inl e, sent2) \<Rightarrow>
          \<lparr>final_output = Inl e, executed = [contextAnalyzer, translator],
           requests = sent2\<rparr>
      | (Inr translatedText, sent2) \<Rightarrow>
     (case validateTranslation api parse model originalText translatedText sourceLang
             targetLang sent2 of
        (Inl e, sent3) \<Rightarrow>
          \<lparr>final_output = Inl e, executed = [contextAnalyzer, translator, validator],
           requests = sent3\<rparr>
      | (Inr validation, sent3) \<Rightarrow>
     (let four = [contextAnalyzer, translator, validator, languageConsistencyChecker] in
      case checkConsistency api parse model translatedText targetLang originalText sent3 of
        (Inl e, sent4) \<Rightarrow> \<lparr>final_output = Inl e, executed = four, requests = sent4\<rparr>
      | (Inr consistencyCheck, sent4) \<Rightarrow>
     (case get_prop validation ''status'' of
        Inl e \<Rightarrow> \<lparr>final_output = Inl e, executed = four, requests = sent4\<rparr>
      | Inr status \<Rightarrow>
          if status = JStr ''needs_revision'' \<or> status = JStr ''invalid'' \<or>
             \<not> truthy (isConsistent consistencyCheck)
          then
            (case improveTranslation api model originalText translatedText sourceLang
                    targetLang context sent4 of
               (Inl e, sent5) \<Rightarrow>
                 \<lparr>final_output = Inl e, executed = four @ [qualityAssurance],
                  requests = sent5\<rparr>
             | (Inr finalText, sent5) \<Rightarrow>
                 if finalText \<noteq> translatedText then
                   (case validateTranslation api parse model originalText finalText
                           sourceLang targetLang sent5 of
                      (Inl e, sent6) \<Rightarrow>
                        \<lparr>final_output = Inl e,
                         executed = four @ [qualityAssurance, validator],
                         requests = sent6\<rparr>
                    | (Inr finalValidation, sent6) \<Rightarrow>
                        \<lparr>final_output =
                           Inr (if finalText \<noteq> [] then finalText else translatedText),
                         executed = four @ [qualityAssurance, validator],
                         requests = sent6\<rparr>)
                 else
                   \<lparr>final_output =
                      Inr (if finalText \<noteq> [] then finalText else translatedText),
                    executed = four @ [qualityAssurance],
                    requests = sent5\<rparr>)
          else
            \<lparr>final_output = Inr translatedText, executed = four, requests = sent4\<rparr>)))))"

subsection \<open>Sample documents\<close>

text \<open>Regions of a 200 by 100 image, used to run the model on concrete inputs.\<close>

definition one_region :: bbox_info where
  "one_region =
     \<lparr>r_bbox = [(20, 10), (120, 10), (120, 30), (20, 30)], r_text = ''Subject:'',
      r_confidence = 9 / 10\<rparr>"

definition two_regions :: "bbox_info list" where
  "two_regions =
     [\<lparr>r_bbox = [(20, 10), (120, 10), (120, 30), (20, 30)], r_text = ''Subject:'',
       r_confidence = 9 / 10\<rparr>,
      \<lparr>r_bbox = [(0, 50), (200, 50), (200, 100), (0, 100)], r_text = ''Secret'',
       r_confidence = 9 / 10\<rparr>]"

text \<open>
  An OCR engine that finds the two regions with the first entry of the ladder, and a
  language model that answers every prompt with the same line.
\<close>

definition two_regions_reader :: ocr_reader where
  "two_regions_reader langs paragraph =
     (if langs = [''en''] \<and> paragraph
      then Some [Pair (r_bbox (two_regions ! 0)) (r_text (two_regions ! 0)),
                 Pair (r_bbox (two_regions ! 1)) (r_text (two_regions ! 1))]
      else None)"

definition constant_llm :: llm where
  "constant_llm model prompt = Some ''Anuvadam''"

definition failing_llm :: llm where
  "failing_llm model prompt = None"

text \<open>
  An OCR engine that finds nothing with the first entry of the ladder, raises on the
  second and finds one region, without a confidence, from the third entry on.
\<close>

definition third_entry_reader :: ocr_reader where
  "third_entry_reader langs paragraph =
     (if langs = [''en''] then Some []
      else if langs = [''en'', ''hi''] then None
      else Some [Pair [(20, 10), (120, 10), (120, 30), (20, 30)] ''Notice''])"

text \<open>The form fields of an upload with the agent mode switched on.\<close>

definition agent_form :: "string \<rightharpoonup> string" where
  "agent_form = map_of [(''model'', ''gemma3:4b''), (''agent_mode'', ''true''), (''target_language'', ''hi'')]"

text \<open>
  A language model that fails on the prompt for the region \<open>Subject:\<close> only, and the
  Telugu phrase the table gives for \<open>Subject:\<close>.
\<close>

definition flaky_llm :: llm where
  "flaky_llm model prompt =
     (if prompt = translate_prompt ''Subject:'' ''te'' then None else Some ''Rahasyam'')"

definition vishayam :: string where
  "vishayam =
     [CHR 0xE0, CHR 0xB0, CHR 0xB5, CHR 0xE0, CHR 0xB0, CHR 0xBF] @
     [CHR 0xE0, CHR 0xB0, CHR 0xB7, CHR 0xE0, CHR 0xB0, CHR 0xAF] @
     [CHR 0xE0, CHR 0xB0, CHR 0x82] @ '':''"

text \<open>
  Collaborators of the agent framework: an endpoint that answers every prompt in prose,
  a \<open>JSON.parse\<close> on replies that are not JSON, an endpoint that answers with a verdict
  in JSON, and what \<open>JSON.parse\<close> makes of that reply.
\<close>

definition prose_api :: ollama_api where
  "prose_api model prompt = Some '' The wording is Inconsistent in places.\<newline>''"

definition rejecting_parse :: json_parse where
  "rejecting_parse reply = None"

definition verdict_reply :: string where
  \<open>verdict_reply = ''{"status": "valid", "isConsistent": true}''\<close>

definition verdict_api :: ollama_api where
  "verdict_api model prompt = Some verdict_reply"

definition verdict_parse :: json_parse where
  "verdict_parse reply =
     (if reply = verdict_reply
      then Some (JObj [(''status'', JStr ''valid''), (''isConsistent'', JBool True)])
      else None)"

text \<open>
  Replies that are JSON but no full verdict: an object with a status only, and the empty
  object, each with what \<open>JSON.parse\<close> makes of it.
\<close>

definition status_only_reply :: string where
  \<open>status_only_reply = ''{"status": "valid"}''\<close>

definition status_only_api :: ollama_api where
  "status_only_api model prompt = Some status_only_reply"

definition status_only_parse :: json_parse where
  "status_only_parse reply =
     (if reply = status_only_reply then Some (JObj [(''status'', JStr ''valid'')]) else None)"

definition empty_object_api :: ollama_api where
  "empty_object_api model prompt = Some ''{}''"

definition empty_object_parse :: json_parse where
  "empty_object_parse reply = (if reply = ''{}'' then Some (JObj []) else None)"

subsection \<open>Notions used in the proofs\<close>

text \<open>
  The number of bytes outside ASCII in a string, and what holds of each table of
  \<open>fallback_translations\<close>: no phrase is empty, every phrase is ASCII, and every
  translation has a byte outside ASCII.
\<close>

definition hi_bytes :: "string \<Rightarrow> nat" where
  "hi_bytes s = length (filter digit7 s)"

definition phrase_table :: "(string \<times> string) list \<Rightarrow> bool" where
  "phrase_table table =
     list_all (\<lambda>(k, v). k \<noteq> [] \<and> list_all (\<lambda>c. \<not> digit7 c) k \<and> list_ex digit7 v) table"

text \<open>
  The condition under which the pipeline enters QualityImprovement, as the code tests it:
  \<open>status === 'needs_revision' || status === 'invalid' || !isConsistent\<close>.
\<close>

definition revision_needed :: "jsval \<Rightarrow> jsval \<Rightarrow> bool" where
  "revision_needed status consistent =
     (status = JStr ''needs_revision'' \<or> status = JStr ''invalid'' \<or> \<not> truthy consistent)"

section \<open>Properties\<close>

subsection \<open>The OCR ladder\<close>

lemma ocr_ladder_spec:
  "ocr_ladder reader ladder [] calls =
     (case dropWhile (yields_nothing reader) ladder of
        first_hit # later \<Rightarrow>
          (attempt reader first_hit True,
           calls @ map (\<lambda>l. (l, True)) (takeWhile (yields_nothing reader) ladder @ [first_hit]))
      | [] \<Rightarrow> ([], calls @ map (\<lambda>l. (l, True)) ladder))"
proof (induction ladder arbitrary: calls)
  case Nil
  show ?case by simp
next
  case (Cons lang_combo rest)
  show ?case
  proof (cases "reader lang_combo True")
    case None
    then have "yields_nothing reader lang_combo"
      by (simp add: yields_nothing_def attempt_def)
    with None Cons show ?thesis
      by (cases "dropWhile (yields_nothing reader) rest")
        (simp_all del: dropWhile_eq_Nil_conv)
  next
    case (Some results)
    show ?thesis
    proof (cases "List.map_filter to_bbox_info results = []")
      case True
      with Some have "yields_nothing reader lang_combo"
        by (simp add: yields_nothing_def attempt_def)
      with Some True Cons show ?thesis
        by (cases "dropWhile (yields_nothing reader) rest")
          (simp_all add: append_results_def del: dropWhile_eq_Nil_conv)
    next
      case False
      with Some have "\<not> yields_nothing reader lang_combo"
        by (simp add: yields_nothing_def attempt_def)
      with Some False show ?thesis
        by (simp add: append_results_def attempt_def)
    qed
  qed
qed

text \<open>
  C2. For every image (every behaviour of the OCR engine on it), the extractor tries the
  entries of the ladder in order with paragraph grouping, passes over an entry that raises
  or yields no region, stops at the first entry that yields a region and calls nothing
  after it; when no entry yields a region it makes one more attempt, with the first
  (narrowest) entry \<open>[en]\<close> and without paragraph grouping.
\<close>

theorem process_image_with_ocr_ladder:
  "process_image_with_ocr reader = extractor_spec reader language_combinations"
proof (cases "dropWhile (yields_nothing reader) language_combinations")
  case Nil
  have en: "hd language_combinations = [''en'']"
    by (simp add: language_combinations_def)
  show ?thesis
    unfolding process_image_with_ocr_def extractor_spec_def ocr_ladder_spec en Nil
    by (simp add: attempt_def append_results_def split: option.split)
next
  case (Cons first_hit later)
  then have "first_hit \<in> set (dropWhile (yields_nothing reader) language_combinations)"
    by simp
  then have "\<not> yields_nothing reader first_hit"
    using Cons by (metis hd_dropWhile list.sel(1) list.distinct(1))
  then have "attempt reader first_hit True \<noteq> []"
    by (simp add: yields_nothing_def)
  then show ?thesis
    unfolding process_image_with_ocr_def extractor_spec_def ocr_ladder_spec Cons
    by simp
qed

theorem process_image_with_ocr_ladder_witness:
  "process_image_with_ocr third_entry_reader =
     ([\<lparr>r_bbox = [(20, 10), (120, 10), (120, 30), (20, 30)], r_text = ''Notice'',
        r_confidence = 9 / 10\<rparr>],
      [([''en''], True), ([''en'', ''hi''], True), ([''en'', ''te''], True)])"
proof -
  have "extractor_spec third_entry_reader language_combinations =
     ([\<lparr>r_bbox = [(20, 10), (120, 10), (120, 30), (20, 30)], r_text = ''Notice'',
        r_confidence = 9 / 10\<rparr>],
      [([''en''], True), ([''en'', ''hi''], True), ([''en'', ''te''], True)])"
    by code_simp
  with process_image_with_ocr_ladder [of third_entry_reader] show ?thesis
    by simp
qed

subsection \<open>Layout reconstruction\<close>

declare str_nat.simps [simp del]
declare lstrip_ws.simps [simp del]

lemma make_overlay_action:
  "make_overlay w h lines action i bbox = Inr ov \<Longrightarrow> o_action ov = action"
  by (auto simp: make_overlay_def Let_def split: if_splits)

text \<open>
  The loop keeps what it had and appends, in order, the overlay of every region whose
  action is not \<open>whiteout\<close>.
\<close>

lemma overlays_loop_filter:
  "overlays_loop w h lines ua i bboxes acc = Inr ovs \<Longrightarrow>
   map Inr ovs =
     map Inr acc @
     map (\<lambda>(j, b). make_overlay w h lines (action_of ua j) j b)
       (filter (\<lambda>(j, b). action_of ua j \<noteq> ''whiteout'') (enumerate i bboxes))"
proof (induction bboxes arbitrary: i acc)
  case Nil
  then show ?case by simp
next
  case (Cons bbox rest)
  show ?case
  proof (cases "action_of ua i = ''whiteout''")
    case True
    with Cons.prems have "overlays_loop w h lines ua (Suc i) rest acc = Inr ovs"
      by (simp add: region_overlay_def)
    from Cons.IH [OF this] True show ?thesis by simp
  next
    case False
    with Cons.prems obtain ov where
      mk: "make_overlay w h lines (action_of ua i) i bbox = Inr ov" and
      rest: "overlays_loop w h lines ua (Suc i) rest (acc @ [ov]) = Inr ovs"
      by (auto simp: region_overlay_def split: sum.splits)
    from Cons.IH [OF rest] False mk show ?thesis by simp
  qed
qed

text \<open>
  C5. Whatever the regions, the actions and the translated lines: when
  \<open>create_processed_html\<close> builds its overlay list, the list holds, in order, exactly one
  overlay for each region whose action is not \<open>whiteout\<close>; no overlay in it carries the
  action \<open>whiteout\<close>; and the turn of the loop for a whiteout region adds nothing.
\<close>

theorem whiteout_regions_have_no_overlay:
  assumes "create_processed_html w h bboxes lines ua = Inr text_overlays"
  shows "map Inr text_overlays =
           map (\<lambda>(i, b). make_overlay w h lines (action_of ua i) i b)
             (filter (\<lambda>(i, b). action_of ua i \<noteq> ''whiteout'') (enumerate 0 bboxes))
         \<and> (\<forall>ov \<in> set text_overlays. o_action ov \<noteq> ''whiteout'')
         \<and> (\<forall>i < length bboxes. action_of ua i = ''whiteout'' \<longrightarrow>
               region_overlay w h lines ua i (bboxes ! i) = Inr None)"
proof -
  let ?kept = "filter (\<lambda>(i, b). action_of ua i \<noteq> ''whiteout'') (enumerate 0 bboxes)"
  from assms have eq: "map Inr text_overlays =
      map (\<lambda>(i, b). make_overlay w h lines (action_of ua i) i b) ?kept"
    using overlays_loop_filter [of w h lines ua 0 bboxes "[]" text_overlays]
    by (simp add: create_processed_html_def)
  have "o_action ov \<noteq> ''whiteout''" if "ov \<in> set text_overlays" for ov
  proof -
    from that have "Inr ov \<in> set (map Inr text_overlays :: (py_error + overlay) list)"
      by simp
    with eq obtain i b where "(i, b) \<in> set ?kept"
      and "make_overlay w h lines (action_of ua i) i b = Inr ov"
      by auto
    then show ?thesis
      using make_overlay_action by fastforce
  qed
  moreover have "region_overlay w h lines ua i (bboxes ! i) = Inr None"
    if "action_of ua i = ''whiteout''" for i
    using that by (simp add: region_overlay_def)
  ultimately show ?thesis using eq by blast
qed

theorem whiteout_regions_have_no_overlay_witness:
  "create_processed_html 200 100 two_regions ['' Vishayam '', ''Rahasyam'']
      (map_of [(''0'', ''translate''), (''1'', ''whiteout'')]) =
     Inr [\<lparr>o_text = ''Vishayam'', o_left = 10, o_top = 10, o_width = 50, o_height = 20,
           o_font_size = 16, o_action = ''translate''\<rparr>]
   \<and> region_overlay 200 100 ['' Vishayam '', ''Rahasyam'']
        (map_of [(''0'', ''translate''), (''1'', ''whiteout'')]) 1 (two_regions ! 1) = Inr None"
proof -
  have run: "create_processed_html 200 100 two_regions ['' Vishayam '', ''Rahasyam'']
      (map_of [(''0'', ''translate''), (''1'', ''whiteout'')]) =
     Inr [\<lparr>o_text = ''Vishayam'', o_left = 10, o_top = 10, o_width = 50, o_height = 20,
           o_font_size = 16, o_action = ''translate''\<rparr>]"
    by code_simp
  have act: "action_of (map_of [(''0'', ''translate''), (''1'', ''whiteout'')]) 1 = ''whiteout''"
    by code_simp
  have len: "(1::nat) < length two_regions"
    by (simp add: two_regions_def)
  from whiteout_regions_have_no_overlay [OF run] act len run show ?thesis
    by blast
qed

subsection \<open>Percentages and font size\<close>







text \<open>
  C8. The font size is clamped to \<open>[8, 16]\<close> whatever the height percentage, and the
  font size of every overlay built is the clamped value for that overlay's height.
\<close>

theorem font_size_clamped:
  "8 \<le> font_size_of height_pct \<and> font_size_of height_pct \<le> 16
   \<and> (\<forall>ov. make_overlay w h lines action i bbox = Inr ov \<longrightarrow>
         o_font_size ov = font_size_of (o_height ov)
         \<and> 8 \<le> o_font_size ov \<and> o_font_size ov \<le> 16)"
  by (auto simp: font_size_of_def make_overlay_def Let_def split: if_splits)

theorem font_size_clamped_witness:
  "make_overlay 200 100 [] ''preserve'' 0 one_region =
     Inr \<lparr>o_text = ''Subject:'', o_left = 10, o_top = 10, o_width = 50, o_height = 20,
          o_font_size = 16, o_action = ''preserve''\<rparr>
   \<and> font_size_of 20 = 16 \<and> font_size_of 15 = 12 \<and> font_size_of 1 = 8
   \<and> 8 \<le> font_size_of (-300) \<and> font_size_of 100000 \<le> 16"
proof -
  have mk: "make_overlay 200 100 [] ''preserve'' 0 one_region =
     Inr \<lparr>o_text = ''Subject:'', o_left = 10, o_top = 10, o_width = 50, o_height = 20,
          o_font_size = 16, o_action = ''preserve''\<rparr>"
    by code_simp
  have "font_size_of 15 = 12" "font_size_of 1 = 8"
    by (simp_all add: font_size_of_def py_int_def)
  with mk font_size_clamped [of 20 200 100 "[]" "''preserve''" 0 one_region]
    font_size_clamped [of "-300" 200 100 "[]" "''preserve''" 0 one_region]
    font_size_clamped [of 100000 200 100 "[]" "''preserve''" 0 one_region]
  show ?thesis by simp
qed

subsection \<open>A region beyond the translated lines\<close>

lemma make_overlay_beyond_lines:
  assumes "length lines \<le> i"
  shows "make_overlay w h lines ''translate'' i bbox =
           (case make_overlay w h lines ''preserve'' i bbox of
              Inl e \<Rightarrow> Inl e
            | Inr ov \<Rightarrow> Inr (ov\<lparr>o_action := ''translate''\<rparr>))"
  using assms by (simp add: make_overlay_def Let_def)


text \<open>
  C10. For a region whose index is not below the length of the translated lines, the
  action \<open>translate\<close> gives what \<open>preserve\<close> gives but for the action recorded: the
  overlay shows the region's recognised text, and the turn fails only where \<open>preserve\<close>
  fails. The entry of the upload response for such an index reports the recognised text
  as the translation, and is built whenever the quad has a point.
\<close>

theorem translate_beyond_lines_is_preserve:
  assumes "length lines \<le> i" and "action_of ua i = ''translate''"
  shows "region_overlay w h lines ua i bbox =
           (case make_overlay w h lines ''preserve'' i bbox of
              Inl e \<Rightarrow> Inl e
            | Inr ov \<Rightarrow> Inr (Some (ov\<lparr>o_action := ''translate''\<rparr>)))
         \<and> (\<forall>ov. region_overlay w h lines ua i bbox = Inr (Some ov) \<longrightarrow>
               o_text ov = r_text bbox)
         \<and> (\<forall>rd. region_entry lines i bbox = Inr rd \<longrightarrow> rd_translated rd = r_text bbox)
         \<and> (r_bbox bbox \<noteq> [] \<longrightarrow> (\<exists>rd. region_entry lines i bbox = Inr rd))"
proof -
  have a: "region_overlay w h lines ua i bbox =
           (case make_overlay w h lines ''preserve'' i bbox of
              Inl e \<Rightarrow> Inl e
            | Inr ov \<Rightarrow> Inr (Some (ov\<lparr>o_action := ''translate''\<rparr>)))"
    using assms
    by (simp add: region_overlay_def make_overlay_beyond_lines split: sum.split)
  have b: "o_text ov = r_text bbox" if "region_overlay w h lines ua i bbox = Inr (Some ov)" for ov
    using that assms
    by (auto simp: region_overlay_def make_overlay_def Let_def split: if_splits sum.splits)
  have c: "rd_translated rd = r_text bbox" if "region_entry lines i bbox = Inr rd" for rd
    using that assms(1) by (auto simp: region_entry_def Let_def split: if_splits)
  have d: "\<exists>rd. region_entry lines i bbox = Inr rd" if "r_bbox bbox \<noteq> []"
    using that by (simp add: region_entry_def Let_def)
  from a b c d show ?thesis by blast
qed

theorem translate_beyond_lines_is_preserve_witness:
  "region_overlay 200 100 [] (map_of [(''0'', ''translate'')]) 0 one_region =
     Inr (Some \<lparr>o_text = ''Subject:'', o_left = 10, o_top = 10, o_width = 50, o_height = 20,
                o_font_size = 16, o_action = ''translate''\<rparr>)
   \<and> region_entry [] 0 one_region =
     Inr \<lparr>rd_id = 0, rd_title = ''Text Region 1'', rd_text = ''Subject:'',
          rd_translated = ''Subject:'', rd_x = 20, rd_y = 10, rd_width = 100, rd_height = 20,
          rd_action = ''preserve''\<rparr>"
proof -
  have len: "length ([] :: string list) \<le> 0"
    by simp
  have act: "action_of (map_of [(''0'', ''translate'')]) 0 = ''translate''"
    by code_simp
  have mk: "make_overlay 200 100 [] ''preserve'' 0 one_region =
     Inr \<lparr>o_text = ''Subject:'', o_left = 10, o_top = 10, o_width = 50, o_height = 20,
          o_font_size = 16, o_action = ''preserve''\<rparr>"
    by code_simp
  have entry: "region_entry [] 0 one_region =
     Inr \<lparr>rd_id = 0, rd_title = ''Text Region 1'', rd_text = ''Subject:'',
          rd_translated = ''Subject:'', rd_x = 20, rd_y = 10, rd_width = 100, rd_height = 20,
          rd_action = ''preserve''\<rparr>"
    by code_simp
  from translate_beyond_lines_is_preserve [OF len act, of 200 100 one_region] mk entry
  show ?thesis by simp
qed

subsection \<open>Direct mode: the fallback dictionary\<close>

lemma replace_no_match:
  assumes "old \<noteq> []" and "\<not> sublist old s"
  shows "replace old new s = s"
  using assms(2)
proof (induction s)
  case Nil
  with assms(1) show ?case by simp
next
  case (Cons c cs)
  from Cons.prems have "\<not> prefix old (c # cs)"
    using prefix_imp_sublist by blast
  moreover from Cons.prems have "\<not> sublist old cs"
    by (simp add: sublist_Cons_right)
  ultimately show ?case
    using assms(1) Cons.IH by simp
qed

lemma apply_translations_no_match:
  assumes "\<forall>(k, v) \<in> set table. k \<noteq> [] \<and> \<not> sublist k doc"
  shows "apply_translations table doc = doc"
  using assms unfolding apply_translations_def
  by (induction table) (auto simp: replace_no_match)

lemma hi_bytes_append [simp]: "hi_bytes (a @ b) = hi_bytes a + hi_bytes b"
  by (simp add: hi_bytes_def)

lemma hi_bytes_Cons: "hi_bytes (c # cs) = (if digit7 c then 1 else 0) + hi_bytes cs"
  by (simp add: hi_bytes_def)

lemma hi_bytes_Nil [simp]: "hi_bytes [] = 0"
  by (simp add: hi_bytes_def)

lemma replace_hi_ge:
  assumes "old \<noteq> []" and "hi_bytes old = 0"
  shows "hi_bytes s \<le> hi_bytes (replace old new s)"
proof (induction s rule: length_induct)
  case (1 s)
  show ?case
  proof (cases s)
    case Nil
    with assms(1) show ?thesis by simp
  next
    case (Cons c cs)
    show ?thesis
    proof (cases "prefix old (c # cs)")
      case True
      then obtain rest where rest: "c # cs = old @ rest"
        by (auto simp: prefix_def)
      with assms(1) have d: "drop (length old - 1) cs = rest"
        by (cases old) auto
      from rest assms(1) have "length rest < length s"
        using Cons by (metis append_eq_conv_conj drop_eq_Nil2 length_drop diff_less length_greater_0_conv list.size(3) not_less zero_less_diff length_append less_add_same_cancel2)
      with 1 have "hi_bytes rest \<le> hi_bytes (replace old new rest)" by blast
      moreover have "hi_bytes s = hi_bytes rest"
        using Cons rest assms(2) by simp
      ultimately show ?thesis
        using Cons True assms(1) d by simp
    next
      case False
      from 1 Cons have "hi_bytes cs \<le> hi_bytes (replace old new cs)" by simp
      with False Cons assms(1) show ?thesis
        by (simp add: hi_bytes_Cons)
    qed
  qed
qed

lemma replace_hi_gt:
  assumes "old \<noteq> []" and "hi_bytes old = 0" and "0 < hi_bytes new"
  shows "sublist old s \<Longrightarrow> hi_bytes s < hi_bytes (replace old new s)"
proof (induction s)
  case Nil
  with assms(1) show ?case by simp
next
  case (Cons c cs)
  show ?case
  proof (cases "prefix old (c # cs)")
    case True
    then obtain rest where rest: "c # cs = old @ rest"
      by (auto simp: prefix_def)
    with assms(1) have d: "drop (length old - 1) cs = rest"
      by (cases old) auto
    have "hi_bytes rest \<le> hi_bytes (replace old new rest)"
      by (rule replace_hi_ge [OF assms(1,2)])
    moreover have "hi_bytes (c # cs) = hi_bytes rest"
      using rest assms(2) by simp
    ultimately show ?thesis
      using True assms(1,3) d by simp
  next
    case False
    with Cons.prems have "sublist old cs"
      by (simp add: sublist_Cons_right)
    from Cons.IH [OF this] False assms(1) show ?thesis
      by (simp add: hi_bytes_Cons)
  qed
qed

lemma phrase_table_entry:
  assumes "phrase_table table" and "(k, v) \<in> set table"
  shows "k \<noteq> []" and "hi_bytes k = 0" and "0 < hi_bytes v"
proof -
  from assms have a: "k \<noteq> []" and b: "list_all (\<lambda>c. \<not> digit7 c) k" and c: "list_ex digit7 v"
    by (auto simp: phrase_table_def list_all_iff)
  show "k \<noteq> []" by (rule a)
  from b show "hi_bytes k = 0"
    by (simp add: hi_bytes_def list_all_iff)
  from c show "0 < hi_bytes v"
    by (simp add: hi_bytes_def list_ex_iff filter_empty_conv)
qed

lemma apply_translations_hi_ge:
  assumes "phrase_table table"
  shows "hi_bytes doc \<le> hi_bytes (apply_translations table doc)"
  using assms
proof (induction table arbitrary: doc)
  case Nil
  show ?case by (simp add: apply_translations_def)
next
  case (Cons kv rest)
  obtain k v where kv: "kv = (k, v)" by (cases kv)
  from Cons.prems have rest: "phrase_table rest"
    by (simp add: phrase_table_def)
  have "hi_bytes doc \<le> hi_bytes (replace k v doc)"
    using phrase_table_entry(1,2) [OF Cons.prems, of k v] kv
    by (intro replace_hi_ge) simp_all
  also have "\<dots> \<le> hi_bytes (apply_translations rest (replace k v doc))"
    by (rule Cons.IH [OF rest])
  finally show ?case
    by (simp add: apply_translations_def kv)
qed

lemma apply_translations_hi_gt:
  assumes "phrase_table table"
    and "\<exists>(k, v) \<in> set table. sublist k doc"
  shows "hi_bytes doc < hi_bytes (apply_translations table doc)"
  using assms
proof (induction table arbitrary: doc)
  case Nil
  then show ?case by simp
next
  case (Cons kv rest)
  obtain k v where kv: "kv = (k, v)" by (cases kv)
  from Cons.prems(1) have rest: "phrase_table rest"
    by (simp add: phrase_table_def)
  note e = phrase_table_entry [OF Cons.prems(1), of k v]
  have step: "apply_translations (kv # rest) doc = apply_translations rest (replace k v doc)"
    by (simp add: apply_translations_def kv)
  show ?case
  proof (cases "sublist k doc")
    case True
    have "hi_bytes doc < hi_bytes (replace k v doc)"
      using e kv True by (intro replace_hi_gt) simp_all
    also have "\<dots> \<le> hi_bytes (apply_translations rest (replace k v doc))"
      by (rule apply_translations_hi_ge [OF rest])
    finally show ?thesis by (simp add: step)
  next
    case False
    have same: "replace k v doc = doc"
      using e(1) kv False by (intro replace_no_match) simp_all
    from False Cons.prems(2) kv have "\<exists>(k, v) \<in> set rest. sublist k doc"
      by auto
    from Cons.IH [OF rest this] same show ?thesis
      by (simp add: step)
  qed
qed

lemma translations_for_cases:
  "translations_for l = [] \<or> l \<in> {''te'', ''hi'', ''ta''}"
  by (auto simp: translations_for_def fallback_translations_def)

lemma phrase_table_te: "phrase_table (translations_for ''te'')"
  by code_simp

lemma phrase_table_hi: "phrase_table (translations_for ''hi'')"
  by code_simp

lemma phrase_table_ta: "phrase_table (translations_for ''ta'')"
  by code_simp

lemma phrase_table_translations_for: "phrase_table (translations_for l)"
  using translations_for_cases [of l] phrase_table_te phrase_table_hi phrase_table_ta
  by (auto simp: phrase_table_def)


lemma fallback_translation_cases:
  "(\<forall>(k, v) \<in> set (translations_for l). \<not> sublist k doc) \<longrightarrow>
     fallback_translation doc l = unavailable_note doc l"
  "(\<exists>(k, v) \<in> set (translations_for l). sublist k doc) \<longrightarrow>
     fallback_translation doc l = apply_translations (translations_for l) doc
     \<and> fallback_translation doc l \<noteq> doc"
proof -
  note pt = phrase_table_translations_for [of l]
  show "(\<forall>(k, v) \<in> set (translations_for l). \<not> sublist k doc) \<longrightarrow>
     fallback_translation doc l = unavailable_note doc l"
  proof
    assume none: "\<forall>(k, v) \<in> set (translations_for l). \<not> sublist k doc"
    have "apply_translations (translations_for l) doc = doc"
      using none phrase_table_entry(1) [OF pt]
      by (intro apply_translations_no_match) auto
    then show "fallback_translation doc l = unavailable_note doc l"
      by (simp add: fallback_translation_def)
  qed
  show "(\<exists>(k, v) \<in> set (translations_for l). sublist k doc) \<longrightarrow>
     fallback_translation doc l = apply_translations (translations_for l) doc
     \<and> fallback_translation doc l \<noteq> doc"
  proof
    assume some: "\<exists>(k, v) \<in> set (translations_for l). sublist k doc"
    have "hi_bytes doc < hi_bytes (apply_translations (translations_for l) doc)"
      by (rule apply_translations_hi_gt [OF pt some])
    then have "apply_translations (translations_for l) doc \<noteq> doc"
      by auto
    then show "fallback_translation doc l = apply_translations (translations_for l) doc
       \<and> fallback_translation doc l \<noteq> doc"
      by (simp add: fallback_translation_def)
  qed
qed

lemma translate_regions_direct:
  "translate_regions generate False model l bboxes =
     (map (\<lambda>b. fst (translate_text generate (r_text b) model l)) bboxes,
      map (\<lambda>b. (model, translate_prompt (r_text b) l)) bboxes)"
  by (induction bboxes) (simp_all add: translate_text_def Let_def split: option.split)

text \<open>
  C6. In direct mode, when the call to the language model for a region fails, the
  region's result is \<open>fallback_translation\<close> of its text: the phrases of the
  language's table replaced one after the other. When no phrase of the table occurs in
  the text, the result is the text between \<open>[CODE]\<close> (the language code in capitals) and
  the note that translation is unavailable; when one occurs, the result is the text
  with the replacements, and differs from the text. Each region's result depends on the
  answer to that region's own call only.
\<close>

theorem direct_mode_fallback:
  "(generate model (translate_prompt doc l) = None \<longrightarrow>
      fst (translate_text generate doc model l) = fallback_translation doc l)
   \<and> ((\<forall>(k, v) \<in> set (translations_for l). \<not> sublist k doc) \<longrightarrow>
        fallback_translation doc l = unavailable_note doc l)
   \<and> ((\<exists>(k, v) \<in> set (translations_for l). sublist k doc) \<longrightarrow>
        fallback_translation doc l = apply_translations (translations_for l) doc
        \<and> fallback_translation doc l \<noteq> doc)
   \<and> fst (translate_regions generate False model l bboxes) =
        map (\<lambda>b. case generate model (translate_prompt (r_text b) l) of
                    Some translated \<Rightarrow> translated
                  | None \<Rightarrow> fallback_translation (r_text b) l) bboxes"
proof -
  have "fst (translate_text generate doc model l) = fallback_translation doc l"
    if "generate model (translate_prompt doc l) = None"
    using that by (simp add: translate_text_def)
  moreover have "fst (translate_regions generate False model l bboxes) =
        map (\<lambda>b. case generate model (translate_prompt (r_text b) l) of
                    Some translated \<Rightarrow> translated
                  | None \<Rightarrow> fallback_translation (r_text b) l) bboxes"
    by (simp add: translate_regions_direct translate_text_def Let_def split: option.split)
  ultimately show ?thesis
    using fallback_translation_cases [of l doc] by blast
qed

theorem direct_mode_fallback_witness:
  "fst (translate_text failing_llm ''Secret'' ''m'' ''te'') =
     ''[TE] Secret [Translation unavailable - Ollama service required]''
   \<and> fst (translate_text failing_llm ''Subject:'' ''m'' ''te'') = vishayam
   \<and> fst (translate_regions flaky_llm False ''m'' ''te'' two_regions) = [vishayam, ''Rahasyam'']"
proof -
  have none: "\<forall>(k, v) \<in> set (translations_for ''te''). \<not> sublist k ''Secret''"
    by code_simp
  have some: "\<exists>(k, v) \<in> set (translations_for ''te''). sublist k ''Subject:''"
    by code_simp
  have marker: "unavailable_note ''Secret'' ''te'' =
      ''[TE] Secret [Translation unavailable - Ollama service required]''"
    by code_simp
  have subst: "apply_translations (translations_for ''te'') ''Subject:'' = vishayam"
    by code_simp
  have fail: "failing_llm ''m'' (translate_prompt doc ''te'') = None" for doc
    by (simp add: failing_llm_def)
  have flaky: "flaky_llm ''m'' (translate_prompt ''Subject:'' ''te'') = None"
    "flaky_llm ''m'' (translate_prompt ''Secret'' ''te'') = Some ''Rahasyam''"
    by code_simp+
  have texts: "map r_text two_regions = [''Subject:'', ''Secret'']"
    by (simp add: two_regions_def)
  from direct_mode_fallback [of failing_llm "''m''" "''Secret''" "''te''" two_regions]
    fail none marker
  have a: "fst (translate_text failing_llm ''Secret'' ''m'' ''te'') =
     ''[TE] Secret [Translation unavailable - Ollama service required]''"
    by simp
  from direct_mode_fallback [of failing_llm "''m''" "''Subject:''" "''te''" two_regions]
    fail some subst
  have b: "fst (translate_text failing_llm ''Subject:'' ''m'' ''te'') = vishayam"
    by simp
  from direct_mode_fallback [of flaky_llm "''m''" "''Subject:''" "''te''" two_regions]
    some subst flaky
  have c: "fst (translate_regions flaky_llm False ''m'' ''te'' two_regions) = [vishayam, ''Rahasyam'']"
    by (simp add: two_regions_def)
  from a b c show ?thesis by simp
qed

subsection \<open>Agent mode of the upload\<close>

lemma translate_regions_agents:
  "translate_regions generate True model l bboxes =
     (map (\<lambda>b. fst (translate_text_with_agents generate (r_text b) model l)) bboxes,
      map (\<lambda>b. (model, agents_prompt (r_text b) l)) bboxes)"
  by (induction bboxes) (simp_all add: translate_text_with_agents_def Let_def split: option.split)

lemma length_join:
  "xs \<noteq> [] \<Longrightarrow>
   length (join sep xs) = sum_list (map length xs) + (length xs - 1) * length sep"
  by (induction sep xs rule: join.induct) simp_all

lemma join_longer_than_member:
  assumes "2 \<le> length xs" and "x \<in> set xs"
  shows "length x < length (join ''\<newline>'' xs)"
proof -
  from assms(1) have ne: "xs \<noteq> []" by auto
  have "length x \<le> sum_list (map length xs)"
    using assms(2) by (simp add: member_le_sum_list)
  with assms(1) show ?thesis
    by (simp add: length_join [OF ne])
qed

lemma agents_prompt_inject:
  "agents_prompt a l = agents_prompt b l \<longleftrightarrow> a = b"
  by (simp add: agents_prompt_def Let_def)

lemma original_text_single: "length bboxes = 1 \<Longrightarrow> original_text bboxes = r_text (hd bboxes)"
  by (cases bboxes) (simp_all add: original_text_def)

text \<open>
  C1, as the code has it. When the request sets \<open>agent_mode\<close>, \<open>upload_image\<close> calls
  \<open>translate_text_with_agents\<close> once for every region, in the order of the regions,
  each time on that region's own text: the calls to the language model are the prompts
  for the single regions, and the translated lines are their answers. For a document of
  one region that one call is the translation of the whole document's joined text; for
  a document of two or more regions there are as many calls as regions, and none of
  them is the call for the joined text.
\<close>

theorem agent_mode_translates_each_region:
  assumes "str_lower (form_get form ''agent_mode'' ''false'') = ''true''"
  shows "llm_calls (upload_image reader generate form path s) =
           map (\<lambda>b. (form_get form ''model'' ''gemma3-legal-samanantar-pro:latest'',
                      agents_prompt (r_text b) (form_get form ''target_language'' ''te'')))
             (fst (process_image_with_ocr reader))
         \<and> (fst (process_image_with_ocr reader) \<noteq> [] \<longrightarrow>
              current_translated_text (session_after (upload_image reader generate form path s)) =
                map (\<lambda>b. fst (translate_text_with_agents generate (r_text b)
                                (form_get form ''model'' ''gemma3-legal-samanantar-pro:latest'')
                                (form_get form ''target_language'' ''te'')))
                  (fst (process_image_with_ocr reader)))
         \<and> (length (fst (process_image_with_ocr reader)) = 1 \<longrightarrow>
              llm_calls (upload_image reader generate form path s) =
                [(form_get form ''model'' ''gemma3-legal-samanantar-pro:latest'',
                  agents_prompt (original_text (fst (process_image_with_ocr reader)))
                    (form_get form ''target_language'' ''te''))])
         \<and> (2 \<le> length (fst (process_image_with_ocr reader)) \<longrightarrow>
              length (llm_calls (upload_image reader generate form path s)) =
                length (fst (process_image_with_ocr reader))
              \<and> (form_get form ''model'' ''gemma3-legal-samanantar-pro:latest'',
                  agents_prompt (original_text (fst (process_image_with_ocr reader)))
                    (form_get form ''target_language'' ''te''))
                \<notin> set (llm_calls (upload_image reader generate form path s)))"
proof (cases "process_image_with_ocr reader")
  case (Pair bboxes ocr_log)
  let ?model = "form_get form ''model'' ''gemma3-legal-samanantar-pro:latest''"
  let ?lang = "form_get form ''target_language'' ''te''"
  from Pair assms have calls: "llm_calls (upload_image reader generate form path s) =
      map (\<lambda>b. (?model, agents_prompt (r_text b) ?lang)) bboxes"
    by (simp add: upload_image_def Let_def translate_regions_agents)
  from Pair assms have lines: "bboxes \<noteq> [] \<Longrightarrow>
      current_translated_text (session_after (upload_image reader generate form path s)) =
        map (\<lambda>b. fst (translate_text_with_agents generate (r_text b) ?model ?lang)) bboxes"
    by (simp add: upload_image_def Let_def translate_regions_agents)
  have one: "llm_calls (upload_image reader generate form path s) =
      [(?model, agents_prompt (original_text bboxes) ?lang)]" if "length bboxes = 1"
    using that calls by (cases bboxes) (simp_all add: original_text_def)
  have many: "(?model, agents_prompt (original_text bboxes) ?lang)
      \<notin> set (llm_calls (upload_image reader generate form path s))" if "2 \<le> length bboxes"
  proof
    assume "(?model, agents_prompt (original_text bboxes) ?lang)
      \<in> set (llm_calls (upload_image reader generate form path s))"
    with calls obtain b where b: "b \<in> set bboxes"
      and "agents_prompt (original_text bboxes) ?lang = agents_prompt (r_text b) ?lang"
      by auto
    then have "original_text bboxes = r_text b"
      by (simp add: agents_prompt_inject)
    moreover have "length (r_text b) < length (original_text bboxes)"
      unfolding original_text_def
      using that b by (intro join_longer_than_member) simp_all
    ultimately show False by simp
  qed
  from calls lines one many Pair show ?thesis
    by simp
qed

theorem agent_mode_translates_each_region_witness:
  "llm_calls (upload_image two_regions_reader constant_llm agent_form ''/tmp/doc.png''
      initial_session) =
     [(''gemma3:4b'', agents_prompt ''Subject:'' ''hi''),
      (''gemma3:4b'', agents_prompt ''Secret'' ''hi'')]
   \<and> current_translated_text (session_after
        (upload_image two_regions_reader constant_llm agent_form ''/tmp/doc.png''
           initial_session)) = [''Anuvadam'', ''Anuvadam'']
   \<and> (''gemma3:4b'', agents_prompt ''Subject:\<newline>Secret'' ''hi'')
       \<notin> set (llm_calls (upload_image two_regions_reader constant_llm agent_form
             ''/tmp/doc.png'' initial_session))
   \<and> llm_calls (upload_image third_entry_reader constant_llm agent_form ''/tmp/doc.png''
        initial_session) =
       [(''gemma3:4b'', agents_prompt ''Notice'' ''hi'')]"
proof -
  have mode: "str_lower (form_get agent_form ''agent_mode'' ''false'') = ''true''"
    by code_simp
  have found: "fst (process_image_with_ocr two_regions_reader) = two_regions"
    by code_simp
  have found': "fst (process_image_with_ocr third_entry_reader) =
      [\<lparr>r_bbox = [(20, 10), (120, 10), (120, 30), (20, 30)], r_text = ''Notice'',
        r_confidence = 9 / 10\<rparr>]"
    by code_simp
  have fields: "form_get agent_form ''model'' ''gemma3-legal-samanantar-pro:latest'' = ''gemma3:4b''"
    "form_get agent_form ''target_language'' ''te'' = ''hi''"
    by code_simp+
  have texts: "map r_text two_regions = [''Subject:'', ''Secret'']" "two_regions \<noteq> []"
    "length two_regions = 2" "original_text two_regions = ''Subject:\<newline>Secret''"
    by (simp_all add: two_regions_def original_text_def)
  have answers: "fst (translate_text_with_agents constant_llm doc ''gemma3:4b'' ''hi'') = ''Anuvadam''" for doc
    by (simp add: translate_text_with_agents_def constant_llm_def)
  from agent_mode_translates_each_region
    [OF mode, of two_regions_reader constant_llm "''/tmp/doc.png''" initial_session]
  have two: "llm_calls (upload_image two_regions_reader constant_llm agent_form ''/tmp/doc.png''
      initial_session) =
     [(''gemma3:4b'', agents_prompt ''Subject:'' ''hi''),
      (''gemma3:4b'', agents_prompt ''Secret'' ''hi'')]"
    "current_translated_text (session_after
        (upload_image two_regions_reader constant_llm agent_form ''/tmp/doc.png''
           initial_session)) = [''Anuvadam'', ''Anuvadam'']"
    "(''gemma3:4b'', agents_prompt ''Subject:\<newline>Secret'' ''hi'')
       \<notin> set (llm_calls (upload_image two_regions_reader constant_llm agent_form
             ''/tmp/doc.png'' initial_session))"
    unfolding found fields using texts answers
    by (simp_all add: two_regions_def agents_prompt_inject)
  from agent_mode_translates_each_region
    [OF mode, of third_entry_reader constant_llm "''/tmp/doc.png''" initial_session]
  have single: "llm_calls (upload_image third_entry_reader constant_llm agent_form ''/tmp/doc.png''
        initial_session) =
       [(''gemma3:4b'', agents_prompt ''Notice'' ''hi'')]"
    unfolding found' fields by simp
  from two single show ?thesis by simp
qed

text \<open>
  C1, as the claim states it, fails: for a document of two regions the upload in agent
  mode makes two calls, one for each region, and not the one call for the joined text.
\<close>

theorem agent_mode_one_call_counterexample:
  "llm_calls (upload_image two_regions_reader constant_llm agent_form ''/tmp/doc.png''
      initial_session) =
     [(''gemma3:4b'', agents_prompt ''Subject:'' ''hi''),
      (''gemma3:4b'', agents_prompt ''Secret'' ''hi'')]
   \<and> llm_calls (upload_image two_regions_reader constant_llm agent_form ''/tmp/doc.png''
      initial_session) \<noteq>
     [(''gemma3:4b'', agents_prompt (original_text two_regions) ''hi'')]"
  by code_simp

subsection \<open>The agent pipeline\<close>

lemma callOllama_sent:
  "snd (callOllama api model prompt sent) = sent @ [(model, prompt)]"
  by (simp add: callOllama_def split: option.split)

lemma stage_requests:
  "snd (analyzeContext api model doc sourceLang targetLang sent) =
     sent @ [(model, context_prompt doc (getLanguageName targetLang))]"
  "snd (translate api model doc sourceLang targetLang ctx sent) =
     sent @ [(model, translation_prompt doc (getLanguageName targetLang) ctx)]"
  "snd (validateTranslation api parse model originalText translatedText sourceLang targetLang sent) =
     sent @ [(model, validation_prompt originalText translatedText)]"
  "snd (checkConsistency api parse model doc targetLang originalText sent) =
     sent @ [(model, consistency_prompt doc (getLanguageName targetLang) originalText)]"
  "snd (improveTranslation api model originalText translatedText sourceLang targetLang ctx sent) =
     sent @ [(model, quality_prompt originalText translatedText ctx)]"
  by (auto simp: analyzeContext_def translate_def validateTranslation_def checkConsistency_def
      improveTranslation_def callOllama_def Let_def split: option.split)

lemma quality_prompt_distinct:
  "quality_prompt a b c \<noteq> context_prompt d l"
  "quality_prompt a b c \<noteq> translation_prompt d l e"
  "quality_prompt a b c \<noteq> validation_prompt d e"
  "quality_prompt a b c \<noteq> consistency_prompt d l e"
  by (simp_all add: quality_prompt_def context_prompt_def translation_prompt_def
      validation_prompt_def consistency_prompt_def)

lemma pipeline_branch:
  assumes "analyzeContext api model originalText sourceLang targetLang [] = (Inr ctx, sent1)"
    and "translate api model originalText sourceLang targetLang ctx sent1 =
           (Inr translatedText, sent2)"
    and "validateTranslation api parse model originalText translatedText sourceLang targetLang
           sent2 = (Inr validation, sent3)"
    and "checkConsistency api parse model translatedText targetLang originalText sent3 =
           (Inr check, sent4)"
    and "get_prop validation ''status'' = Inr status"
  shows "\<not> (status = JStr ''needs_revision'' \<or> status = JStr ''invalid'' \<or>
            \<not> truthy (isConsistent check)) \<Longrightarrow>
         executeTranslationPipeline api parse model originalText sourceLang targetLang =
           \<lparr>final_output = Inr translatedText,
            executed = [contextAnalyzer, translator, validator, languageConsistencyChecker],
            requests = sent4\<rparr>"
    and "status = JStr ''needs_revision'' \<or> status = JStr ''invalid'' \<or>
           \<not> truthy (isConsistent check) \<Longrightarrow>
         executeTranslationPipeline api parse model originalText sourceLang targetLang =
           (case improveTranslation api model originalText translatedText sourceLang
                   targetLang ctx sent4 of
              (Inl e, sent5) \<Rightarrow>
                \<lparr>final_output = Inl e,
                 executed = [contextAnalyzer, translator, validator,
                             languageConsistencyChecker, qualityAssurance],
                 requests = sent5\<rparr>
            | (Inr finalText, sent5) \<Rightarrow>
                if finalText \<noteq> translatedText then
                  (case validateTranslation api parse model originalText finalText
                          sourceLang targetLang sent5 of
                     (Inl e, sent6) \<Rightarrow>
                       \<lparr>final_output = Inl e,
                        executed = [contextAnalyzer, translator, validator,
                                    languageConsistencyChecker, qualityAssurance, validator],
                        requests = sent6\<rparr>
                   | (Inr finalValidation, sent6) \<Rightarrow>
                       \<lparr>final_output =
                          Inr (if finalText \<noteq> [] then finalText else translatedText),
                        executed = [contextAnalyzer, translator, validator,
                                    languageConsistencyChecker, qualityAssurance, validator],
                        requests = sent6\<rparr>)
                else
                  \<lparr>final_output =
                     Inr (if finalText \<noteq> [] then finalText else translatedText),
                   executed = [contextAnalyzer, translator, validator,
                               languageConsistencyChecker, qualityAssurance],
                   requests = sent5\<rparr>)"
  using assms
  by (simp_all add: executeTranslationPipeline_def Let_def split: prod.split sum.split)

lemma four_requests:
  assumes "analyzeContext api model originalText sourceLang targetLang [] = (Inr ctx, sent1)"
    and "translate api model originalText sourceLang targetLang ctx sent1 =
           (Inr translatedText, sent2)"
    and "validateTranslation api parse model originalText translatedText sourceLang targetLang
           sent2 = (Inr validation, sent3)"
    and "checkConsistency api parse model translatedText targetLang originalText sent3 =
           (Inr check, sent4)"
  shows "sent4 =
     [(model, context_prompt originalText (getLanguageName targetLang)),
      (model, translation_prompt originalText (getLanguageName targetLang) ctx),
      (model, validation_prompt originalText translatedText),
      (model, consistency_prompt translatedText (getLanguageName targetLang) originalText)]"
  using stage_requests(1) [of api model originalText sourceLang targetLang "[]"]
    stage_requests(2) [of api model originalText sourceLang targetLang ctx sent1]
    stage_requests(3) [of api parse model originalText translatedText sourceLang targetLang sent2]
    stage_requests(4) [of api parse model translatedText targetLang originalText sent3]
    assms
  by simp

lemma quality_improvement_only_after_verdicts:
  assumes "qualityAssurance \<in> set (executed (executeTranslationPipeline api parse model
             originalText sourceLang targetLang))"
  shows "\<exists>ctx sent1 translatedText sent2 validation sent3 check sent4 status.
           analyzeContext api model originalText sourceLang targetLang [] = (Inr ctx, sent1)
         \<and> translate api model originalText sourceLang targetLang ctx sent1 =
             (Inr translatedText, sent2)
         \<and> validateTranslation api parse model originalText translatedText sourceLang
               targetLang sent2 = (Inr validation, sent3)
         \<and> checkConsistency api parse model translatedText targetLang originalText sent3 =
             (Inr check, sent4)
         \<and> get_prop validation ''status'' = Inr status
         \<and> (status = JStr ''needs_revision'' \<or> status = JStr ''invalid'' \<or>
              \<not> truthy (isConsistent check))"
  using assms
  by (auto simp: executeTranslationPipeline_def Let_def split: sum.splits if_splits prod.splits)

lemma revision_needed_bool:
  "revision_needed status (JBool b) =
     (status = JStr ''needs_revision'' \<or> status = JStr ''invalid'' \<or> b = False)"
  by (simp add: revision_needed_def)

lemma js_trim_samples:
  "js_trim verdict_reply = verdict_reply"
  "js_trim status_only_reply = status_only_reply"
  "js_trim ''{}'' = ''{}''"
  "js_trim '' The wording is Inconsistent in places.\<newline>'' =
     ''The wording is Inconsistent in places.''"
  by code_simp+

text \<open>
  C3, as the code has it. In every run of the pipeline, QualityImprovement is executed
  only after the first four stages have returned and the Validation verdict's status
  has been read. In a run that gets there, the agent is executed, and its request is
  sent to the endpoint, exactly when the status is \<open>needs_revision\<close> or \<open>invalid\<close>, or
  \<open>isConsistent\<close> is falsy: false, or missing, \<open>null\<close>, zero or the empty string. When
  the condition fails the run executes the four stages only, sends their four requests
  and returns the Translation stage's output unchanged. When it holds the run returns
  what QualityImprovement returns: its error, or its text (after the final validation
  when the text differs from the translation; the translation when the text is empty).
\<close>

theorem quality_improvement_branch:
  "(qualityAssurance \<in> set (executed (executeTranslationPipeline api parse model
        originalText sourceLang targetLang)) \<longrightarrow>
      (\<exists>ctx sent1 translatedText sent2 validation sent3 check sent4 status.
          analyzeContext api model originalText sourceLang targetLang [] = (Inr ctx, sent1)
        \<and> translate api model originalText sourceLang targetLang ctx sent1 =
            (Inr translatedText, sent2)
        \<and> validateTranslation api parse model originalText translatedText sourceLang
              targetLang sent2 = (Inr validation, sent3)
        \<and> checkConsistency api parse model translatedText targetLang originalText sent3 =
            (Inr check, sent4)
        \<and> get_prop validation ''status'' = Inr status
        \<and> revision_needed status (isConsistent check)))
   \<and> (\<forall>ctx sent1 translatedText sent2 validation sent3 check sent4 status.
          analyzeContext api model originalText sourceLang targetLang [] = (Inr ctx, sent1)
        \<and> translate api model originalText sourceLang targetLang ctx sent1 =
            (Inr translatedText, sent2)
        \<and> validateTranslation api parse model originalText translatedText sourceLang
              targetLang sent2 = (Inr validation, sent3)
        \<and> checkConsistency api parse model translatedText targetLang originalText sent3 =
            (Inr check, sent4)
        \<and> get_prop validation ''status'' = Inr status
        \<longrightarrow>
          (qualityAssurance \<in> set (executed (executeTranslationPipeline api parse model
              originalText sourceLang targetLang))) =
            revision_needed status (isConsistent check)
        \<and> ((model, quality_prompt originalText translatedText ctx)
              \<in> set (requests (executeTranslationPipeline api parse model
                    originalText sourceLang targetLang))) =
            revision_needed status (isConsistent check)
        \<and> (\<not> revision_needed status (isConsistent check) \<longrightarrow>
              executeTranslationPipeline api parse model originalText sourceLang targetLang =
                \<lparr>final_output = Inr translatedText,
                 executed = [contextAnalyzer, translator, validator,
                             languageConsistencyChecker],
                 requests = sent4\<rparr>)
        \<and> (revision_needed status (isConsistent check) \<longrightarrow>
              (\<forall>e sent5.
                  improveTranslation api model originalText translatedText sourceLang
                    targetLang ctx sent4 = (Inl e, sent5) \<longrightarrow>
                  final_output (executeTranslationPipeline api parse model originalText
                    sourceLang targetLang) = Inl e)
            \<and> (\<forall>finalText sent5.
                  improveTranslation api model originalText translatedText sourceLang
                    targetLang ctx sent4 = (Inr finalText, sent5) \<longrightarrow>
                  final_output (executeTranslationPipeline api parse model originalText
                    sourceLang targetLang) =
                    (if finalText = translatedText then Inr translatedText
                     else
                       (case fst (validateTranslation api parse model originalText finalText
                                    sourceLang targetLang sent5) of
                          Inl e \<Rightarrow> Inl e
                        | Inr finalValidation \<Rightarrow>
                            Inr (if finalText \<noteq> [] then finalText else translatedText))))))"
proof (intro conjI allI impI, goal_cases)
  case 1
  from quality_improvement_only_after_verdicts [OF this] show ?case
    by (simp add: revision_needed_def)
next
  case (2 ctx sent1 translatedText sent2 validation sent3 check sent4 status)
  then have st:
    "analyzeContext api model originalText sourceLang targetLang [] = (Inr ctx, sent1)"
    "translate api model originalText sourceLang targetLang ctx sent1 = (Inr translatedText, sent2)"
    "validateTranslation api parse model originalText translatedText sourceLang targetLang sent2 =
       (Inr validation, sent3)"
    "checkConsistency api parse model translatedText targetLang originalText sent3 =
       (Inr check, sent4)"
    "get_prop validation ''status'' = Inr status"
    by simp_all
  note br = pipeline_branch [OF st]
  show ?case
  proof (cases "revision_needed status (isConsistent check)")
    case True
    with br(2) show ?thesis
      by (auto simp: revision_needed_def split: prod.split sum.split if_splits)
  next
    case False
    with br(1) show ?thesis
      by (simp add: revision_needed_def)
  qed
next
  case (3 ctx sent1 translatedText sent2 validation sent3 check sent4 status)
  then have st:
    "analyzeContext api model originalText sourceLang targetLang [] = (Inr ctx, sent1)"
    "translate api model originalText sourceLang targetLang ctx sent1 = (Inr translatedText, sent2)"
    "validateTranslation api parse model originalText translatedText sourceLang targetLang sent2 =
       (Inr validation, sent3)"
    "checkConsistency api parse model translatedText targetLang originalText sent3 =
       (Inr check, sent4)"
    "get_prop validation ''status'' = Inr status"
    by simp_all
  note br = pipeline_branch [OF st]
  note four = four_requests [OF st(1-4)]
  show ?case
  proof (cases "revision_needed status (isConsistent check)")
    case True
    obtain r5 where i5: "improveTranslation api model originalText translatedText sourceLang
        targetLang ctx sent4 =
        (r5, sent4 @ [(model, quality_prompt originalText translatedText ctx)])"
      using stage_requests(5) [of api model originalText translatedText sourceLang targetLang
          ctx sent4]
      by (metis prod.collapse)
    have v6: "\<exists>r6. validateTranslation api parse model originalText finalText sourceLang
        targetLang sent5 = (r6, sent5 @ [(model, validation_prompt originalText finalText)])"
      for finalText sent5
      using stage_requests(3) [of api parse model originalText finalText sourceLang targetLang
          sent5]
      by (metis prod.collapse)
    have "(model, quality_prompt originalText translatedText ctx)
        \<in> set (requests (executeTranslationPipeline api parse model originalText sourceLang
              targetLang))"
    proof (cases r5)
      case (Inl e)
      with True br(2) i5 show ?thesis
        by (simp add: revision_needed_def)
    next
      case (Inr finalText)
      obtain r6 where "validateTranslation api parse model originalText finalText sourceLang
          targetLang (sent4 @ [(model, quality_prompt originalText translatedText ctx)]) =
          (r6, (sent4 @ [(model, quality_prompt originalText translatedText ctx)]) @
               [(model, validation_prompt originalText finalText)])"
        using v6 by blast
      with Inr True br(2) i5 show ?thesis
        by (cases r6) (simp_all add: revision_needed_def)
    qed
    with True show ?thesis by simp
  next
    case False
    with br(1) four show ?thesis
      by (simp add: revision_needed_def quality_prompt_distinct)
  qed
next
  case (4 ctx sent1 translatedText sent2 validation sent3 check sent4 status)
  then show ?case
    using pipeline_branch(1) [of api model originalText sourceLang targetLang ctx sent1
        translatedText sent2 parse validation sent3 check sent4 status]
    by (simp add: revision_needed_def)
next
  case (5 ctx sent1 translatedText sent2 validation sent3 check sent4 status e sent5)
  then show ?case
    using pipeline_branch(2) [of api model originalText sourceLang targetLang ctx sent1
        translatedText sent2 parse validation sent3 check sent4 status]
    by (simp add: revision_needed_def)
next
  case (6 ctx sent1 translatedText sent2 validation sent3 check sent4 status finalText sent5)
  then show ?case
    using pipeline_branch(2) [of api model originalText sourceLang targetLang ctx sent1
        translatedText sent2 parse validation sent3 check sent4 status]
    by (auto simp: revision_needed_def split: prod.split sum.split)
qed

theorem quality_improvement_branch_witness:
  "executeTranslationPipeline verdict_api verdict_parse ''gemma3:4b'' ''Subject:'' ''en'' ''hi'' =
     \<lparr>final_output = Inr verdict_reply,
      executed = [contextAnalyzer, translator, validator, languageConsistencyChecker],
      requests =
        [(''gemma3:4b'', context_prompt ''Subject:'' ''Hindi''),
         (''gemma3:4b'', translation_prompt ''Subject:'' ''Hindi'' verdict_reply),
         (''gemma3:4b'', validation_prompt ''Subject:'' verdict_reply),
         (''gemma3:4b'', consistency_prompt verdict_reply ''Hindi'' ''Subject:'')]\<rparr>
   \<and> qualityAssurance \<in> set (executed (executeTranslationPipeline prose_api rejecting_parse
         ''gemma3:4b'' ''Subject:'' ''en'' ''hi''))
   \<and> (''gemma3:4b'', quality_prompt ''Subject:'' ''The wording is Inconsistent in places.''
          ''The wording is Inconsistent in places.'')
       \<in> set (requests (executeTranslationPipeline prose_api rejecting_parse
         ''gemma3:4b'' ''Subject:'' ''en'' ''hi''))
   \<and> final_output (executeTranslationPipeline prose_api rejecting_parse
         ''gemma3:4b'' ''Subject:'' ''en'' ''hi'') = Inr ''The wording is Inconsistent in places.''"
proof -
  have hindi: "getLanguageName ''hi'' = ''Hindi''"
    by (simp add: getLanguageName_def language_names_def)
  let ?s1 = "[(''gemma3:4b'', context_prompt ''Subject:'' ''Hindi'')]"
  let ?s2 = "?s1 @ [(''gemma3:4b'', translation_prompt ''Subject:'' ''Hindi'' verdict_reply)]"
  let ?s3 = "?s2 @ [(''gemma3:4b'', validation_prompt ''Subject:'' verdict_reply)]"
  let ?s4 = "?s3 @ [(''gemma3:4b'', consistency_prompt verdict_reply ''Hindi'' ''Subject:'')]"
  have stages:
    "analyzeContext verdict_api ''gemma3:4b'' ''Subject:'' ''en'' ''hi'' [] = (Inr verdict_reply, ?s1)
     \<and> translate verdict_api ''gemma3:4b'' ''Subject:'' ''en'' ''hi'' verdict_reply ?s1 =
         (Inr verdict_reply, ?s2)
     \<and> validateTranslation verdict_api verdict_parse ''gemma3:4b'' ''Subject:'' verdict_reply
           ''en'' ''hi'' ?s2 =
         (Inr (JObj [(''status'', JStr ''valid''), (''isConsistent'', JBool True)]), ?s3)
     \<and> checkConsistency verdict_api verdict_parse ''gemma3:4b'' verdict_reply ''hi''
           ''Subject:'' ?s3 =
         (Inr \<lparr>isConsistent = JBool True, mixedWords = JArr [], mixedLanguages = JArr [],
               consistencyScore = JNum 0, recommendations = JArr [],
               targetLanguage = ''Hindi''\<rparr>, ?s4)
     \<and> get_prop (JObj [(''status'', JStr ''valid''), (''isConsistent'', JBool True)])
           ''status'' = Inr (JStr ''valid'')"
    by (simp add: analyzeContext_def translate_def validateTranslation_def
        checkConsistency_def callOllama_def verdict_api_def verdict_parse_def js_trim_samples
        get_prop_def nullish_def js_or_def Let_def hindi)
  let ?p = "''The wording is Inconsistent in places.''"
  let ?t1 = "[(''gemma3:4b'', context_prompt ''Subject:'' ''Hindi'')]"
  let ?t2 = "?t1 @ [(''gemma3:4b'', translation_prompt ''Subject:'' ''Hindi'' ?p)]"
  let ?t3 = "?t2 @ [(''gemma3:4b'', validation_prompt ''Subject:'' ?p)]"
  let ?t4 = "?t3 @ [(''gemma3:4b'', consistency_prompt ?p ''Hindi'' ''Subject:'')]"
  have stages':
    "analyzeContext prose_api ''gemma3:4b'' ''Subject:'' ''en'' ''hi'' [] = (Inr ?p, ?t1)
     \<and> translate prose_api ''gemma3:4b'' ''Subject:'' ''en'' ''hi'' ?p ?t1 = (Inr ?p, ?t2)
     \<and> validateTranslation prose_api rejecting_parse ''gemma3:4b'' ''Subject:'' ?p
           ''en'' ''hi'' ?t2 = (Inr validation_fallback, ?t3)
     \<and> checkConsistency prose_api rejecting_parse ''gemma3:4b'' ?p ''hi'' ''Subject:'' ?t3 =
         (Inr (consistency_fallback ?p ''Hindi''), ?t4)
     \<and> get_prop validation_fallback ''status'' = Inr (JStr ''needs_revision'')"
    by (simp add: analyzeContext_def translate_def validateTranslation_def
        checkConsistency_def callOllama_def prose_api_def rejecting_parse_def js_trim_samples
        get_prop_def nullish_def validation_fallback_def Let_def hindi)
  have improve: "improveTranslation prose_api ''gemma3:4b'' ''Subject:'' ?p ''en'' ''hi'' ?p ?t4 =
      (Inr ?p, ?t4 @ [(''gemma3:4b'', quality_prompt ''Subject:'' ?p ?p)])"
    by (simp add: improveTranslation_def callOllama_def prose_api_def js_trim_samples)
  have no: "\<not> revision_needed (JStr ''valid'') (JBool True)"
    by (simp add: revision_needed_def)
  have yes: "revision_needed (JStr ''needs_revision'') (isConsistent (consistency_fallback ?p ''Hindi''))"
    by (simp add: revision_needed_def)
  note quiet = quality_improvement_branch [THEN conjunct2, rule_format, OF stages]
  note busy = quality_improvement_branch [THEN conjunct2, rule_format, OF stages']
  from quiet no have a: "executeTranslationPipeline verdict_api verdict_parse ''gemma3:4b''
      ''Subject:'' ''en'' ''hi'' =
     \<lparr>final_output = Inr verdict_reply,
      executed = [contextAnalyzer, translator, validator, languageConsistencyChecker],
      requests = ?s4\<rparr>"
    by simp
  from busy yes improve have b:
    "qualityAssurance \<in> set (executed (executeTranslationPipeline prose_api rejecting_parse
         ''gemma3:4b'' ''Subject:'' ''en'' ''hi''))"
    "(''gemma3:4b'', quality_prompt ''Subject:'' ?p ?p)
       \<in> set (requests (executeTranslationPipeline prose_api rejecting_parse
         ''gemma3:4b'' ''Subject:'' ''en'' ''hi''))"
    "final_output (executeTranslationPipeline prose_api rejecting_parse
         ''gemma3:4b'' ''Subject:'' ''en'' ''hi'') = Inr ?p"
    by auto
  from a b show ?thesis by simp
qed

text \<open>
  C3, as the claim states it, fails: with a Validation verdict of status \<open>valid\<close> and a
  ConsistencyCheck reply that has no \<open>isConsistent\<close>, the verdict's \<open>isConsistent\<close> is
  \<open>undefined\<close>, not false, and QualityImprovement is executed.
\<close>

theorem quality_improvement_false_only_counterexample:
  "fst (validateTranslation status_only_api status_only_parse ''gemma3:4b'' ''Subject:''
          status_only_reply ''en'' ''hi'' []) = Inr (JObj [(''status'', JStr ''valid'')])
   \<and> map_sum id isConsistent
        (fst (checkConsistency status_only_api status_only_parse ''gemma3:4b''
                status_only_reply ''hi'' ''Subject:'' [])) = Inr JUndefined
   \<and> JUndefined \<noteq> JBool False
   \<and> executed (executeTranslationPipeline status_only_api status_only_parse ''gemma3:4b''
        ''Subject:'' ''en'' ''hi'') =
       [contextAnalyzer, translator, validator, languageConsistencyChecker, qualityAssurance]"
  by (simp add: executeTranslationPipeline_def analyzeContext_def translate_def
      validateTranslation_def checkConsistency_def improveTranslation_def callOllama_def
      status_only_api_def status_only_parse_def js_trim_samples get_prop_def nullish_def
      js_or_def Let_def)

subsection \<open>Replies that are not JSON\<close>

text \<open>
  C4, as the code has it. When \<open>JSON.parse\<close> throws on the Validation stage's reply, the
  stage returns, without throwing, the fixed verdict with status \<open>needs_revision\<close>, score
  50, the issue \<open>JSON parsing failed\<close> and the recommendation \<open>Manual review required\<close>.
\<close>

theorem validation_parse_failure:
  assumes "callOllama api model (validation_prompt originalText translatedText) sent =
             (Inr reply, sent')"
    and "parse reply = None"
  shows "validateTranslation api parse model originalText translatedText sourceLang targetLang
           sent =
           (Inr (JObj [(''status'', JStr ''needs_revision''),
                       (''score'', JNum 50),
                       (''issues'', JArr [JStr ''JSON parsing failed'']),
                       (''recommendations'', JArr [JStr ''Manual review required''])]),
            sent')"
  using assms by (simp add: validateTranslation_def validation_fallback_def)

theorem validation_parse_failure_witness:
  "validateTranslation prose_api rejecting_parse ''gemma3:4b'' ''Subject:'' ''Anuvadam'' ''en''
     ''hi'' [] =
     (Inr (JObj [(''status'', JStr ''needs_revision''),
                 (''score'', JNum 50),
                 (''issues'', JArr [JStr ''JSON parsing failed'']),
                 (''recommendations'', JArr [JStr ''Manual review required''])]),
      [(''gemma3:4b'', validation_prompt ''Subject:'' ''Anuvadam'')])"
proof -
  have call: "callOllama prose_api ''gemma3:4b'' (validation_prompt ''Subject:'' ''Anuvadam'') [] =
      (Inr ''The wording is Inconsistent in places.'',
       [(''gemma3:4b'', validation_prompt ''Subject:'' ''Anuvadam'')])"
    by (simp add: callOllama_def prose_api_def js_trim_samples)
  have fail: "rejecting_parse ''The wording is Inconsistent in places.'' = None"
    by (simp add: rejecting_parse_def)
  from validation_parse_failure [where parse = rejecting_parse, OF call fail] show ?thesis .
qed

text \<open>
  C4, as the claim states it, fails: the verdict returned for a reply that is not JSON
  is not the one with the issue \<open>parse failure\<close> and the recommendation \<open>manual review\<close>.
\<close>

theorem validation_fallback_counterexample:
  "fst (validateTranslation prose_api rejecting_parse ''gemma3:4b'' ''Subject:'' ''Anuvadam''
          ''en'' ''hi'' []) \<noteq>
     Inr (JObj [(''status'', JStr ''needs_revision''),
                (''score'', JNum 50),
                (''issues'', JArr [JStr ''parse failure'']),
                (''recommendations'', JArr [JStr ''manual review''])])"
  by (simp add: validateTranslation_def callOllama_def prose_api_def rejecting_parse_def
      validation_fallback_def)

lemma js_includes_sublist: "js_includes s sub \<longleftrightarrow> sublist sub s"
  by (induction s) (auto simp: sublist_Cons_right)

lemma contains_ignoring_case:
  "sublist w (str_lower s) \<longleftrightarrow> (\<exists>before word after. s = before @ word @ after \<and> str_lower word = w)"
  unfolding sublist_def str_lower_def
  by (metis map_append map_eq_append_conv)

text \<open>
  C9, as the code has it. When \<open>JSON.parse\<close> throws on the ConsistencyCheck stage's
  reply, or gives \<open>null\<close>, the stage returns, without throwing, a verdict whose
  \<open>isConsistent\<close> is true exactly when the reply holds no word that is \<open>inconsistent\<close>
  up to the case of its letters, whose score is 50 and whose only recommendation is
  \<open>Manual review recommended\<close>.
\<close>

theorem consistency_parse_failure:
  assumes "callOllama api model
             (consistency_prompt doc (getLanguageName targetLang) originalText) sent =
             (Inr reply, sent')"
    and "parse reply = None \<or> parse reply = Some JNull"
  shows "\<exists>verdict. checkConsistency api parse model doc targetLang originalText sent =
             (Inr verdict, sent')
           \<and> isConsistent verdict =
               JBool (\<not> (\<exists>before word after. reply = before @ word @ after
                              \<and> str_lower word = ''inconsistent''))
           \<and> consistencyScore verdict = JNum 50
           \<and> recommendations verdict = JArr [JStr ''Manual review recommended'']"
proof -
  from assms have "checkConsistency api parse model doc targetLang originalText sent =
      (Inr (consistency_fallback reply (getLanguageName targetLang)), sent')"
    by (auto simp: checkConsistency_def Let_def nullish_def)
  then show ?thesis
    by (simp add: consistency_fallback_def js_includes_sublist contains_ignoring_case)
qed

theorem consistency_parse_failure_witness:
  "checkConsistency prose_api rejecting_parse ''gemma3:4b'' ''Anuvadam'' ''hi'' ''Subject:'' [] =
     (Inr \<lparr>isConsistent = JBool False, mixedWords = JArr [], mixedLanguages = JArr [],
           consistencyScore = JNum 50,
           recommendations = JArr [JStr ''Manual review recommended''],
           targetLanguage = ''Hindi''\<rparr>,
      [(''gemma3:4b'', consistency_prompt ''Anuvadam'' ''Hindi'' ''Subject:'')])"
proof -
  have hindi: "getLanguageName ''hi'' = ''Hindi''"
    by (simp add: getLanguageName_def language_names_def)
  have call: "callOllama prose_api ''gemma3:4b''
      (consistency_prompt ''Anuvadam'' (getLanguageName ''hi'') ''Subject:'') [] =
      (Inr ''The wording is Inconsistent in places.'',
       [(''gemma3:4b'', consistency_prompt ''Anuvadam'' ''Hindi'' ''Subject:'')])"
    by (simp add: callOllama_def prose_api_def js_trim_samples hindi)
  have fail: "rejecting_parse ''The wording is Inconsistent in places.'' = None
      \<or> rejecting_parse ''The wording is Inconsistent in places.'' = Some JNull"
    by (simp add: rejecting_parse_def)
  have found: "js_includes (str_lower ''The wording is Inconsistent in places.'') ''inconsistent''"
    by code_simp
  have run: "checkConsistency prose_api rejecting_parse ''gemma3:4b'' ''Anuvadam'' ''hi''
      ''Subject:'' [] =
     (Inr \<lparr>isConsistent = JBool False, mixedWords = JArr [], mixedLanguages = JArr [],
           consistencyScore = JNum 50,
           recommendations = JArr [JStr ''Manual review recommended''],
           targetLanguage = ''Hindi''\<rparr>,
      [(''gemma3:4b'', consistency_prompt ''Anuvadam'' ''Hindi'' ''Subject:'')])"
    by (simp add: checkConsistency_def Let_def callOllama_def prose_api_def js_trim_samples
        hindi rejecting_parse_def consistency_fallback_def found)
  from consistency_parse_failure [where parse = rejecting_parse, OF call fail] run
  show ?thesis by simp
qed

text \<open>
  C9, as the claim states it, fails: the reply \<open>{}\<close> is JSON but no verdict of the
  ConsistencyCheck shape, and the stage returns for it the score 0, no recommendation
  and an \<open>isConsistent\<close> that is \<open>undefined\<close>.
\<close>

theorem consistency_wrong_shape_counterexample:
  "fst (checkConsistency empty_object_api empty_object_parse ''gemma3:4b'' ''Anuvadam'' ''hi''
          ''Subject:'' []) =
     Inr \<lparr>isConsistent = JUndefined, mixedWords = JArr [], mixedLanguages = JArr [],
          consistencyScore = JNum 0, recommendations = JArr [],
          targetLanguage = ''Hindi''\<rparr>
   \<and> JNum 0 \<noteq> JNum 50
   \<and> JArr [] \<noteq> JArr [JStr ''Manual review recommended'']"
  by (simp add: checkConsistency_def callOllama_def empty_object_api_def
      empty_object_parse_def js_trim_samples nullish_def js_or_def Let_def
      getLanguageName_def language_names_def)

end
